theory Spec2Isabelle
  imports Main
begin

section \<open>Python values, strings and exceptions\<close>

text \<open>
  The program is Python 2 (ego.py).  Strings are byte strings, modelled as \<open>string\<close>.
  An exception is a value of \<open>error\<close>; a call that may raise returns \<open>error + 'a\<close>
  with \<open>Inl\<close> for the exception.  The three classes ReportableError derives
  (UserError, ServerError, RemoteError) carry their message; the built-in exceptions
  that the code can run into are listed by name.
\<close>

datatype error =
    UserError string
  | ServerError string
  | RemoteError string
  | TypeError
  | ValueError
  | KeyError
  | IndexError
  | AttributeError
  | DownloadError

text \<open>
  The values the program handles: what a JSON document decodes to (None, booleans,
  integers, strings, lists, dicts), the result object of urlfetch.fetch
  (\<open>status_code\<close>, \<open>content\<close>), a webob request (its \<open>path\<close>) and a webob
  response (status line, Location header, content type, body).  A dict is an association
  list read with \<open>map_of\<close>.
\<close>

datatype pyval =
    PNone
  | PBool bool
  | PInt int
  | PStr string
  | PList "pyval list"
  | PDict "(string \<times> pyval) list"
  | PFetched int string
  | PRequest string
  | PResponse string "string option" string string

text \<open>Python truth value testing (\<open>if x:\<close>, \<open>not x\<close>).\<close>

fun truthy :: "pyval \<Rightarrow> bool" where
  "truthy PNone = False"
| "truthy (PBool b) = b"
| "truthy (PInt n) = (n \<noteq> 0)"
| "truthy (PStr s) = (s \<noteq> [])"
| "truthy (PList xs) = (xs \<noteq> [])"
| "truthy (PDict kvs) = (kvs \<noteq> [])"
| "truthy (PFetched st body) = True"
| "truthy (PRequest p) = True"
| "truthy (PResponse st loc ct body) = True"

subsection \<open>Character classes and str methods\<close>

definition ascii_lowercase :: string where
  "ascii_lowercase = ''abcdefghijklmnopqrstuvwxyz''"

definition ascii_uppercase :: string where
  "ascii_uppercase = ''ABCDEFGHIJKLMNOPQRSTUVWXYZ''"

definition digits :: string where
  "digits = ''0123456789''"

text \<open>\<open>s.startswith(p)\<close>, \<open>s.endswith(p)\<close>, \<open>c in s\<close>.\<close>

definition startswith :: "string \<Rightarrow> string \<Rightarrow> bool" where
  "startswith s p = (take (length p) s = p)"

definition endswith :: "string \<Rightarrow> string \<Rightarrow> bool" where
  "endswith s p = (length p \<le> length s \<and> drop (length s - length p) s = p)"

definition contains_char :: "char \<Rightarrow> string \<Rightarrow> bool" where
  "contains_char c s = (c \<in> set s)"

text \<open>
  \<open>str.islower()\<close>: true iff the string has at least one cased character and no
  uppercase one.  \<open>str.lower()\<close> maps each uppercase ASCII letter to its lowercase.
\<close>

definition islower :: "string \<Rightarrow> bool" where
  "islower s = ((\<exists>c \<in> set s. c \<in> set ascii_lowercase) \<and> (\<forall>c \<in> set s. c \<notin> set ascii_uppercase))"

definition lower_char :: "char \<Rightarrow> char" where
  "lower_char c = (case map_of (zip ascii_uppercase ascii_lowercase) c of Some l \<Rightarrow> l | None \<Rightarrow> c)"

definition lower :: "string \<Rightarrow> string" where
  "lower s = map lower_char s"

text \<open>\<open>s.replace(c, rep)\<close> for a one-character pattern.\<close>

definition replace_char :: "char \<Rightarrow> string \<Rightarrow> string \<Rightarrow> string" where
  "replace_char c rep s = concat (map (\<lambda>x. if x = c then rep else [x]) s)"

text \<open>
  \<open>xml.sax.saxutils.escape(data)\<close> with no extra entities:
  \<^verbatim>\<open>data.replace("&", "&amp;").replace(">", "&gt;").replace("<", "&lt;")\<close>.
\<close>

definition escape :: "string \<Rightarrow> string" where
  "escape data =
     replace_char (CHR ''<'') ''&lt;''
       (replace_char (CHR ''>'') ''&gt;''
         (replace_char (CHR ''&'') ''&amp;'' data))"

subsection \<open>Regular expressions\<close>

text \<open>
  The fragment of \<open>re\<close> that VALID_CSE_RE uses: a character class, a character class
  repeated one or more times, and concatenation.  \<open>rx_rests r s\<close> lists what is left of
  \<open>s\<close> after each way \<open>r\<close> can match a prefix of it, longest repetition first, which
  is the order in which a backtracking matcher tries them.  \<open>re_match\<close> is
  \<open>pattern.match(s)\<close> tested for truth: some prefix of \<open>s\<close> matches.
\<close>

datatype rx =
    Cls string
  | PlusCls string
  | Seq rx rx

fun plus_rests :: "string \<Rightarrow> string \<Rightarrow> string list" where
  "plus_rests cs [] = []"
| "plus_rests cs (c # s) = (if c \<in> set cs then plus_rests cs s @ [s] else [])"

fun rx_rests :: "rx \<Rightarrow> string \<Rightarrow> string list" where
  "rx_rests (Cls cs) [] = []"
| "rx_rests (Cls cs) (c # s) = (if c \<in> set cs then [s] else [])"
| "rx_rests (PlusCls cs) s = plus_rests cs s"
| "rx_rests (Seq a b) s = concat (map (rx_rests b) (rx_rests a s))"

definition re_match :: "rx \<Rightarrow> string \<Rightarrow> bool" where
  "re_match r s = (rx_rests r s \<noteq> [])"

text \<open>\<open>[a-zA-Z0-9]\<close> and \<open>[\w\-]\<close> (\<open>\w\<close> is \<open>[a-zA-Z0-9_]\<close> without flags).\<close>

definition alnum :: string where
  "alnum = ascii_lowercase @ ascii_uppercase @ digits"

definition word_or_hyphen :: string where
  "word_or_hyphen = alnum @ ''_-''"

text \<open>\<^verbatim>\<open>VALID_CSE_RE = re.compile(r'^[a-zA-Z0-9][\w\-]+\.[a-zA-Z0-9][\w\-]+')\<close>\<close>

definition VALID_CSE_RE :: rx where
  "VALID_CSE_RE =
     Seq (Cls alnum) (Seq (PlusCls word_or_hyphen)
       (Seq (Cls ''.'') (Seq (Cls alnum) (PlusCls word_or_hyphen))))"

section \<open>CSE patterns of a profile URL\<close>

text \<open>
  \<^verbatim>\<open>
  def profile_url_to_cse_patterns(profile_url):
    if not profile_url:
      return []
    profile_url = escape(profile_url)
    if profile_url.startswith('http://'):
      profile_url = profile_url[len('http://'):]
    if not VALID_CSE_RE.match(profile_url):
      return []
    cse_patterns = []
    if profile_url.endswith('/'):
      cse_patterns.append(profile_url)
      cse_patterns.append(profile_url + '*')
    elif '?' in profile_url:
      cse_patterns.append(profile_url)
    else:
      cse_patterns.append(profile_url)
      cse_patterns.append(profile_url + '/*')
    return cse_patterns
  \<close>
\<close>

definition strip_http :: "string \<Rightarrow> string" where
  "strip_http u = (if startswith u ''http://'' then drop (length ''http://'') u else u)"

definition profile_url_to_cse_patterns :: "string \<Rightarrow> string list" where
  "profile_url_to_cse_patterns profile_url =
     (if profile_url = [] then []
      else let profile_url = strip_http (escape profile_url) in
        if \<not> re_match VALID_CSE_RE profile_url then []
        else if endswith profile_url ''/'' then [profile_url, profile_url @ ''*'']
        else if contains_char (CHR ''?'') profile_url then [profile_url]
        else [profile_url, profile_url @ ''/*''])"

section \<open>String formatting\<close>

text \<open>\<open>str(n)\<close> for an integer.\<close>

function str_nat :: "nat \<Rightarrow> string" where
  "str_nat n = (if n < 10 then [digits ! n] else str_nat (n div 10) @ [digits ! (n mod 10)])"
  by pat_completeness auto
termination
  by (relation "measure id") auto

declare str_nat.simps [simp del]

definition str_int :: "int \<Rightarrow> string" where
  "str_int i = (if i < 0 then CHR ''-'' # str_nat (nat (- i)) else str_nat (nat i))"

text \<open>
  \<open>fmt % x\<close> where \<open>x\<close> is one string or one integer and \<open>a\<close> is \<open>str(x)\<close>.
  The conversions \<open>%s\<close> and \<open>%%\<close> are the only ones the program's format strings
  contain.  Python raises TypeError ("not enough arguments for format string") at a
  second \<open>%s\<close>, and TypeError ("not all arguments converted during string
  formatting") at the end of a format that has consumed no argument; an incomplete or
  unknown conversion is a ValueError.  The flag says whether the argument is used up.
\<close>

fun py_format_from :: "string \<Rightarrow> string \<Rightarrow> bool \<Rightarrow> error + string" where
  "py_format_from [] a used = (if used then Inr [] else Inl TypeError)"
| "py_format_from [c] a used =
     (if c = CHR ''%'' then Inl ValueError
      else map_sum id ((#) c) (py_format_from [] a used))"
| "py_format_from (c # d # rest) a used =
     (if c = CHR ''%'' then
        (if d = CHR ''s'' then
           (if used then Inl TypeError
            else map_sum id ((@) a) (py_format_from rest a True))
         else if d = CHR ''%'' then map_sum id ((#) (CHR ''%'')) (py_format_from rest a used)
         else Inl ValueError)
      else map_sum id ((#) c) (py_format_from (d # rest) a used))"

definition py_format :: "string \<Rightarrow> string \<Rightarrow> error + string" where
  "py_format fmt a = py_format_from fmt a False"

text \<open>
  \<open>repr(x)\<close> and \<open>str(x)\<close>.  A string is printed between single quotes, or
  between double quotes when it contains a single quote and no double quote, with the
  quote, the backslash, tab, newline and carriage return escaped and every other byte
  outside the printable ASCII range written \<open>\xNN\<close>.  A list and a dict print the
  \<open>repr\<close> of their content; the association list of a dict is in the order in which
  the dict is iterated.  Integers are printed without the suffix of a long.  The printed
  form of an object (the urlfetch result, a webob request or response) depends on the
  object's identity and is a fixed text here; the program prints no object.
  \<open>str(x)\<close> is the string itself for a string and \<open>repr(x)\<close> for the rest.
\<close>

definition hexdigits :: string where
  "hexdigits = ''0123456789abcdef''"

definition repr_char :: "char \<Rightarrow> char \<Rightarrow> string" where
  "repr_char quote c =
     (if c = quote \<or> c = CHR 0x5C then [CHR 0x5C, c]
      else if c = CHR 0x09 then [CHR 0x5C, CHR ''t'']
      else if c = CHR 0x0A then [CHR 0x5C, CHR ''n'']
      else if c = CHR 0x0D then [CHR 0x5C, CHR ''r'']
      else if (of_char c :: nat) < 32 \<or> 127 \<le> (of_char c :: nat)
        then [CHR 0x5C, CHR ''x'', hexdigits ! (of_char c div 16), hexdigits ! (of_char c mod 16)]
      else [c])"

definition repr_str :: "string \<Rightarrow> string" where
  "repr_str s =
     (let quote = (if CHR 0x27 \<in> set s \<and> CHR 0x22 \<notin> set s then CHR 0x22 else CHR 0x27)
      in quote # concat (map (repr_char quote) s) @ [quote])"

fun join_comma :: "string list \<Rightarrow> string" where
  "join_comma [] = []"
| "join_comma [x] = x"
| "join_comma (x # y # ys) = x @ '', '' @ join_comma (y # ys)"

primrec py_repr :: "pyval \<Rightarrow> string" where
  "py_repr PNone = ''None''"
| "py_repr (PBool b) = (if b then ''True'' else ''False'')"
| "py_repr (PInt i) = str_int i"
| "py_repr (PStr s) = repr_str s"
| "py_repr (PList xs) = ''['' @ join_comma (map py_repr xs) @ '']''"
| "py_repr (PDict kvs) =
     ''{'' @ join_comma (map (\<lambda>kv. repr_str (fst kv) @ '': '' @ snd kv)
                          (map (map_prod id py_repr) kvs)) @ ''}''"
| "py_repr (PFetched st body) = ''<urlfetch result>''"
| "py_repr (PRequest p) = ''<request>''"
| "py_repr (PResponse st loc ct body) = ''<response>''"

fun py_str :: "pyval \<Rightarrow> string" where
  "py_str (PStr s) = s"
| "py_str v = py_repr v"

section \<open>The services the program calls\<close>

text \<open>
  The program runs against three services that are not part of it: memcache,
  urlfetch and the template engine; it decodes JSON with simplejson.  The state of the
  outside world is the content of memcache together with the trace of the calls made
  to the services, in order.  The field \<open>calls\<close> is a counter that an instrumented
  operation (\<open>counted\<close> below) increments; no function of the program touches it.

  What urlfetch answers for a URL, what simplejson decodes a text to (or the exception
  it raises), how a template renders and the name of the module (\<open>f.__module__\<close>) are
  parameters, collected in \<open>externals\<close>.
\<close>

datatype event =
    CacheGet string
  | CacheAdd string
  | UrlFetch string
  | Render string

record world =
  memcache :: "(string \<times> pyval) list"
  trace :: "event list"
  calls :: nat

record externals =
  urlfetch :: "string \<Rightarrow> error + pyval"
  simplejson_loads :: "string \<Rightarrow> error + pyval"
  template_render :: "string \<Rightarrow> (string \<times> pyval) list \<Rightarrow> error + string"
  f_module :: string

type_synonym 'a action = "world \<Rightarrow> (error + 'a) \<times> world"

definition emit :: "event \<Rightarrow> world \<Rightarrow> world" where
  "emit e w = w\<lparr>trace := trace w @ [e]\<rparr>"

definition raise :: "error \<Rightarrow> 'a action" where
  "raise e w = (Inl e, w)"

text \<open>
  \<open>memcache.get(key)\<close> returns the stored value, or None.  \<open>memcache.add(key, value,
  time)\<close> stores the value only if the key holds none and returns whether it did.
  Entries do not expire in the model: it describes calls that follow each other
  within the time to live.
\<close>

definition memcache_get :: "string \<Rightarrow> world \<Rightarrow> pyval \<times> world" where
  "memcache_get key w =
     (case map_of (memcache w) key of None \<Rightarrow> PNone | Some v \<Rightarrow> v, emit (CacheGet key) w)"

definition memcache_add :: "string \<Rightarrow> pyval \<Rightarrow> int \<Rightarrow> world \<Rightarrow> bool \<times> world" where
  "memcache_add key v time w =
     (case map_of (memcache w) key of
        None \<Rightarrow> (True, emit (CacheAdd key) (w\<lparr>memcache := (key, v) # memcache w\<rparr>))
      | Some old \<Rightarrow> (False, emit (CacheAdd key) w))"

definition urlfetch_fetch :: "externals \<Rightarrow> string \<Rightarrow> pyval action" where
  "urlfetch_fetch ext url w = (urlfetch ext url, emit (UrlFetch url) w)"

section \<open>The cacheable decorator\<close>

text \<open>
  \<^verbatim>\<open>
  def cacheable(keygen=None, expiration=CACHE_EXPIRATION):
    def call(f, *args, **kwargs):
      if not expiration:
        return f(*args, **kwargs)
      if keygen:
        local_key = keygen(*args, **kwargs)
      else:
        local_key = args[0]
      global_key = '%s:%s:%s' % (f.__module__, f.__name__, local_key)
      result = memcache.get(global_key)
      if result:
        logging.debug('Found %s in cache.' % local_key)
      else:
        result = f(*args, **kwargs)
        if result:
          if not memcache.add(global_key, result, expiration):
            logging.warning('Error caching response for %s.' % local_key)
      return result
    return decorator.decorator(call)
  \<close>
  The decorated function has the signature of \<open>f\<close> and passes its arguments on
  positionally, so \<open>args\<close> is the list of all arguments.  \<open>expiration\<close> is None or
  an integer.
\<close>

definition CACHE_EXPIRATION :: int where
  "CACHE_EXPIRATION = 3600"

definition no_expiration :: "int option \<Rightarrow> bool" where
  "no_expiration expiration = (expiration = None \<or> expiration = Some 0)"

definition local_key_of :: "(pyval list \<Rightarrow> error + pyval) option \<Rightarrow> pyval list \<Rightarrow> error + pyval" where
  "local_key_of keygen args =
     (case keygen of
        Some kg \<Rightarrow> kg args
      | None \<Rightarrow> (case args of [] \<Rightarrow> Inl IndexError | a # rest \<Rightarrow> Inr a))"

definition global_key_of :: "string \<Rightarrow> string \<Rightarrow> pyval \<Rightarrow> string" where
  "global_key_of modname fname local_key = modname @ '':'' @ fname @ '':'' @ py_str local_key"

definition cacheable ::
  "(pyval list \<Rightarrow> error + pyval) option \<Rightarrow> int option \<Rightarrow> string \<Rightarrow> string \<Rightarrow>
   (pyval list \<Rightarrow> pyval action) \<Rightarrow> pyval list \<Rightarrow> pyval action" where
  "cacheable keygen expiration modname fname f args w =
     (if no_expiration expiration then f args w
      else case local_key_of keygen args of
        Inl e \<Rightarrow> (Inl e, w)
      | Inr local_key \<Rightarrow>
          (let global_key = global_key_of modname fname local_key in
           case memcache_get global_key w of (cached, w1) \<Rightarrow>
             if truthy cached then (Inr cached, w1)
             else case f args w1 of
               (Inl e, w2) \<Rightarrow> (Inl e, w2)
             | (Inr result, w2) \<Rightarrow>
                 if truthy result
                 then (Inr result, snd (memcache_add global_key result (the expiration) w2))
                 else (Inr result, w2)))"

text \<open>An operation instrumented with a call counter.\<close>

definition counted :: "(pyval list \<Rightarrow> pyval action) \<Rightarrow> pyval list \<Rightarrow> pyval action" where
  "counted f args w = f args (w\<lparr>calls := Suc (calls w)\<rparr>)"

text \<open>
  \<^verbatim>\<open>
  def request_keygen(request, *args, **kwargs):
    if not request or not request.path:
      raise ServerError('First parameter must be a request with a path.')
    return request.path
  \<close>
\<close>

definition request_keygen :: "pyval list \<Rightarrow> error + pyval" where
  "request_keygen args =
     (case args of
        [] \<Rightarrow> Inl TypeError
      | request # rest \<Rightarrow>
          if \<not> truthy request then Inl (ServerError ''First parameter must be a request with a path.'')
          else (case request of
                  PRequest path \<Rightarrow>
                    if path = [] then Inl (ServerError ''First parameter must be a request with a path.'')
                    else Inr (PStr path)
                | _ \<Rightarrow> Inl AttributeError))"

section \<open>The profile service\<close>

text \<open>
  \<^verbatim>\<open>
  @cacheable()
  def get_url(url):
    return urlfetch.fetch(url)
  \<close>
\<close>

definition get_url_body :: "externals \<Rightarrow> pyval list \<Rightarrow> pyval action" where
  "get_url_body ext args =
     (case args of [PStr url] \<Rightarrow> urlfetch_fetch ext url | _ \<Rightarrow> raise TypeError)"

definition get_url :: "externals \<Rightarrow> string \<Rightarrow> pyval action" where
  "get_url ext url =
     cacheable None (Some CACHE_EXPIRATION) (f_module ext) ''get_url'' (get_url_body ext) [PStr url]"

text \<open>
  \<^verbatim>\<open>
  @cacheable()
  def get_friendfeed_profile(nickname):
    if not nickname:
      raise UserError('nickname required')
    friendfeed_profile_url = (
      'http://friendfeed.com/api/user/%s/profile?include=name,nickname,services' % nickname)
    result = get_url(friendfeed_profile_url)
    if result.status_code == 404:
      raise UserError('User %s not found' % nickname)
    elif result.status_code == 401:
      raise UserError('User %s is private' % nickname)
    elif result.status_code != 200:
      raise ServerError('Unknown friendfeed code' % result.status_code)
    friendfeed_profile_json = result.content
    if not friendfeed_profile_json:
      raise ServerError('could not load friendfeed user %s' % nickname)
    friendfeed_profile = simplejson.loads(friendfeed_profile_json)
    if not friendfeed_profile:
      raise ServerError('could not parse friendfeed user %s' % nickname)
    return friendfeed_profile
  \<close>
  \<open>raise_formatted\<close> is \<open>raise E(fmt % x)\<close>: the message is formatted first, and an
  exception of the formatting is the one that is raised.  The nickname is any value:
  the function tests its truth value and prints it with \<open>%s\<close>.
\<close>

definition raise_formatted :: "(string \<Rightarrow> error) \<Rightarrow> string \<Rightarrow> string \<Rightarrow> 'a action" where
  "raise_formatted E fmt a =
     (case py_format fmt a of Inl e \<Rightarrow> raise e | Inr msg \<Rightarrow> raise (E msg))"

definition get_friendfeed_profile_body :: "externals \<Rightarrow> pyval \<Rightarrow> pyval action" where
  "get_friendfeed_profile_body ext nickname w =
     (if \<not> truthy nickname then raise (UserError ''nickname required'') w
      else case py_format ''http://friendfeed.com/api/user/%s/profile?include=name,nickname,services''
                  (py_str nickname) of
        Inl e \<Rightarrow> raise e w
      | Inr friendfeed_profile_url \<Rightarrow>
          (case get_url ext friendfeed_profile_url w of
             (Inl e, w1) \<Rightarrow> (Inl e, w1)
           | (Inr result, w1) \<Rightarrow>
               (case result of
                  PFetched status_code content \<Rightarrow>
                    if status_code = 404
                      then raise_formatted UserError ''User %s not found'' (py_str nickname) w1
                    else if status_code = 401
                      then raise_formatted UserError ''User %s is private'' (py_str nickname) w1
                    else if status_code \<noteq> 200
                      then raise_formatted ServerError ''Unknown friendfeed code''
                             (str_int status_code) w1
                    else if content = []
                      then raise_formatted ServerError ''could not load friendfeed user %s''
                             (py_str nickname) w1
                    else (case simplejson_loads ext content of
                            Inl e \<Rightarrow> raise e w1
                          | Inr friendfeed_profile \<Rightarrow>
                              if \<not> truthy friendfeed_profile
                              then raise_formatted ServerError
                                     ''could not parse friendfeed user %s'' (py_str nickname) w1
                              else (Inr friendfeed_profile, w1))
                | _ \<Rightarrow> raise AttributeError w1)))"

definition get_friendfeed_profile_args :: "externals \<Rightarrow> pyval list \<Rightarrow> pyval action" where
  "get_friendfeed_profile_args ext args =
     (case args of [nickname] \<Rightarrow> get_friendfeed_profile_body ext nickname | _ \<Rightarrow> raise TypeError)"

definition get_friendfeed_profile :: "externals \<Rightarrow> pyval \<Rightarrow> pyval action" where
  "get_friendfeed_profile ext nickname =
     cacheable None (Some CACHE_EXPIRATION) (f_module ext) ''get_friendfeed_profile''
       (get_friendfeed_profile_args ext) [nickname]"

text \<open>
  \<open>d[key]\<close>: the value of a dict, KeyError when the key is missing, TypeError for a
  value that a string cannot index.
\<close>

definition getitem :: "pyval \<Rightarrow> string \<Rightarrow> error + pyval" where
  "getitem d key =
     (case d of
        PDict kvs \<Rightarrow> (case map_of kvs key of None \<Rightarrow> Inl KeyError | Some v \<Rightarrow> Inr v)
      | _ \<Rightarrow> Inl TypeError)"

text \<open>
  \<^verbatim>\<open>
  def get_friendfeed_name(friendfeed_profile, friendfeed_name):
    try:
      name = friendfeed_profile['name']
    except KeyError:
      try:
        name = friendfeed_profile['nickname']
      except KeyError:
        name = friendfeed_name
    return name
  \<close>
\<close>

definition get_friendfeed_name :: "pyval \<Rightarrow> pyval \<Rightarrow> error + pyval" where
  "get_friendfeed_name friendfeed_profile friendfeed_name =
     (case getitem friendfeed_profile ''name'' of
        Inr name \<Rightarrow> Inr name
      | Inl e \<Rightarrow>
          if e = KeyError then
            (case getitem friendfeed_profile ''nickname'' of
               Inr name \<Rightarrow> Inr name
             | Inl e' \<Rightarrow> if e' = KeyError then Inr friendfeed_name else Inl e')
          else Inl e)"

text \<open>
  \<^verbatim>\<open>
  def get_annotations(nickname):
    url = ANNOTATIONS_URL_TEMPLATE % nickname
    result = get_url(url)
    if result.status_code != 200:
      logging.debug('Could not load %s' % url)
      annotation = ''
    else:
      return result.content
  \<close>
  A Python function that reaches its end without \<open>return\<close> returns None.
\<close>

definition ANNOTATIONS_URL_TEMPLATE :: string where
  "ANNOTATIONS_URL_TEMPLATE = ''http://ego-ego.appspot.com/friendfeed/%s/annotations/list/''"

definition get_annotations :: "externals \<Rightarrow> string \<Rightarrow> pyval action" where
  "get_annotations ext nickname w =
     (case py_format ANNOTATIONS_URL_TEMPLATE nickname of
        Inl e \<Rightarrow> raise e w
      | Inr url \<Rightarrow>
          (case get_url ext url w of
             (Inl e, w1) \<Rightarrow> (Inl e, w1)
           | (Inr result, w1) \<Rightarrow>
               (case result of
                  PFetched status_code content \<Rightarrow>
                    if status_code \<noteq> 200 then (Inr PNone, w1)
                    else (Inr (PStr content), w1)
                | _ \<Rightarrow> raise AttributeError w1)))"

text \<open>
  \<^verbatim>\<open>
  def get_cse_names(friendfeed_profile):
    cse_patterns = []
    try:
      services = friendfeed_profile['services']
    except KeyError:
      logging.debug('No services found in profile.')
    else:
      for service in services:
        try:
          profile_url = service['profileUrl']
        except KeyError:
          logging.warning('No profileUrl in  %s' % service)
        else:
          cse_patterns.extend(profile_url_to_cse_patterns(profile_url))
    return cse_patterns
  \<close>
  Iterating a dict yields its keys, iterating a string its characters; None, a number
  or an object cannot be iterated.  A profile URL that is not a string is returned
  for when falsy and has no \<open>replace\<close> for \<open>escape\<close> otherwise.
\<close>

definition iterate :: "pyval \<Rightarrow> error + pyval list" where
  "iterate v =
     (case v of
        PList xs \<Rightarrow> Inr xs
      | PDict kvs \<Rightarrow> Inr (map (\<lambda>kv. PStr (fst kv)) kvs)
      | PStr s \<Rightarrow> Inr (map (\<lambda>c. PStr [c]) s)
      | _ \<Rightarrow> Inl TypeError)"

definition service_cse_patterns :: "pyval \<Rightarrow> error + string list" where
  "service_cse_patterns service =
     (case getitem service ''profileUrl'' of
        Inl e \<Rightarrow> if e = KeyError then Inr [] else Inl e
      | Inr profile_url \<Rightarrow>
          if \<not> truthy profile_url then Inr []
          else (case profile_url of
                  PStr s \<Rightarrow> Inr (profile_url_to_cse_patterns s)
                | _ \<Rightarrow> Inl AttributeError))"

fun extend_cse_patterns :: "string list \<Rightarrow> pyval list \<Rightarrow> error + string list" where
  "extend_cse_patterns cse_patterns [] = Inr cse_patterns"
| "extend_cse_patterns cse_patterns (service # services) =
     (case service_cse_patterns service of
        Inl e \<Rightarrow> Inl e
      | Inr ps \<Rightarrow> extend_cse_patterns (cse_patterns @ ps) services)"

definition get_cse_names :: "pyval \<Rightarrow> error + string list" where
  "get_cse_names friendfeed_profile =
     (case getitem friendfeed_profile ''services'' of
        Inl e \<Rightarrow> if e = KeyError then Inr [] else Inl e
      | Inr services \<Rightarrow>
          (case iterate services of
             Inl e \<Rightarrow> Inl e
           | Inr xs \<Rightarrow> extend_cse_patterns [] xs))"

section \<open>View handlers\<close>

text \<open>
  A TemplateResponse is a webob response whose body is the rendered template; a
  redirect is a response with a Location header.
  \<^verbatim>\<open>
  class TemplateResponse(webob.Response):
    def __init__(self, template_name, template_data=None, *args, **kwargs):
      super(TemplateResponse, self).__init__(*args, **kwargs)
      if template_data is None:
        template_data = {}
      path = os.path.join(TEMPLATE_DIR, template_name)
      self.body = template.render(path, template_data)
  \<close>
\<close>

definition CREF_MIMETYPE :: string where
  "CREF_MIMETYPE = ''text/xml''"

definition ANNOTATIONS_MIMETYPE :: string where
  "ANNOTATIONS_MIMETYPE = ''text/xml''"

definition OSD_MIMETYPE :: string where
  "OSD_MIMETYPE = ''application/opensearchdescription+xml''"

definition TemplateResponse ::
  "externals \<Rightarrow> string \<Rightarrow> (string \<times> pyval) list \<Rightarrow> string \<Rightarrow> string \<Rightarrow> pyval action" where
  "TemplateResponse ext template_name template_data status content_type w =
     (case template_render ext template_name template_data of
        Inl e \<Rightarrow> (Inl e, emit (Render template_name) w)
      | Inr body \<Rightarrow> (Inr (PResponse status None content_type body), emit (Render template_name) w))"

definition HTTPMovedPermanently :: "string \<Rightarrow> pyval" where
  "HTTPMovedPermanently location = PResponse ''301 Moved Permanently'' (Some location) ''text/html'' []"

text \<open>
  The five per-user handlers.  Each is decorated with
  \<open>@cacheable(keygen=request_keygen)\<close> and called with a request and a nickname.
  \<^verbatim>\<open>
  def UserView(request, nickname):
    if not request.path.islower():
      return webob.exc.HTTPMovedPermanently(location=request.path.lower())
    friendfeed_profile = get_friendfeed_profile(nickname)
    name = get_friendfeed_name(friendfeed_profile, nickname)
    template_data = {'nickname': nickname, 'name':  name}
    return TemplateResponse('user.tmpl', template_data)
  \<close>
\<close>

definition UserView_body :: "externals \<Rightarrow> string \<Rightarrow> string \<Rightarrow> pyval action" where
  "UserView_body ext path nickname w =
     (if \<not> islower path then (Inr (HTTPMovedPermanently (lower path)), w)
      else case get_friendfeed_profile ext (PStr nickname) w of
        (Inl e, w1) \<Rightarrow> (Inl e, w1)
      | (Inr friendfeed_profile, w1) \<Rightarrow>
          (case get_friendfeed_name friendfeed_profile (PStr nickname) of
             Inl e \<Rightarrow> (Inl e, w1)
           | Inr name \<Rightarrow>
               TemplateResponse ext ''user.tmpl''
                 [(''nickname'', PStr nickname), (''name'', name)] ''200 OK'' ''text/html'' w1))"

text \<open>
  \<^verbatim>\<open>
  def OsdView(request, nickname):
    if not request.path.islower():
      return webob.exc.HTTPMovedPermanently(location=request.path.lower())
    friendfeed_profile = get_friendfeed_profile(nickname)
    name = get_friendfeed_name(friendfeed_profile, nickname)
    template_data = {'nickname': nickname, 'name':  name}
    return TemplateResponse('osd.tmpl', template_data, content_type=OSD_MIMETYPE)
  \<close>
\<close>

definition OsdView_body :: "externals \<Rightarrow> string \<Rightarrow> string \<Rightarrow> pyval action" where
  "OsdView_body ext path nickname w =
     (if \<not> islower path then (Inr (HTTPMovedPermanently (lower path)), w)
      else case get_friendfeed_profile ext (PStr nickname) w of
        (Inl e, w1) \<Rightarrow> (Inl e, w1)
      | (Inr friendfeed_profile, w1) \<Rightarrow>
          (case get_friendfeed_name friendfeed_profile (PStr nickname) of
             Inl e \<Rightarrow> (Inl e, w1)
           | Inr name \<Rightarrow>
               TemplateResponse ext ''osd.tmpl''
                 [(''nickname'', PStr nickname), (''name'', name)] ''200 OK'' OSD_MIMETYPE w1))"

text \<open>
  \<^verbatim>\<open>
  def CrefView(request, nickname):
    if not request.path.islower():
      return webob.exc.HTTPMovedPermanently(location=request.path.lower())
    try:
      friendfeed_profile = get_friendfeed_profile(nickname)
      name = get_friendfeed_name(friendfeed_profile, nickname)
      annotations = get_annotations(nickname)
    except UserError:
      annotations = ''
      nickname = None
      name = None
    template_data = {'nickname': nickname, 'name':  name, 'annotations': annotations}
    return TemplateResponse('cref.tmpl', template_data, content_type=CREF_MIMETYPE)
  \<close>
\<close>

definition is_UserError :: "error \<Rightarrow> bool" where
  "is_UserError e = (case e of UserError msg \<Rightarrow> True | _ \<Rightarrow> False)"

definition cref_data :: "externals \<Rightarrow> string \<Rightarrow> (string \<times> pyval) list action" where
  "cref_data ext nickname w =
     (case get_friendfeed_profile ext (PStr nickname) w of
        (Inl e, w1) \<Rightarrow> (Inl e, w1)
      | (Inr friendfeed_profile, w1) \<Rightarrow>
          (case get_friendfeed_name friendfeed_profile (PStr nickname) of
             Inl e \<Rightarrow> (Inl e, w1)
           | Inr name \<Rightarrow>
               (case get_annotations ext nickname w1 of
                  (Inl e, w2) \<Rightarrow> (Inl e, w2)
                | (Inr annotations, w2) \<Rightarrow>
                    (Inr [(''nickname'', PStr nickname), (''name'', name),
                          (''annotations'', annotations)], w2))))"

definition CrefView_body :: "externals \<Rightarrow> string \<Rightarrow> string \<Rightarrow> pyval action" where
  "CrefView_body ext path nickname w =
     (if \<not> islower path then (Inr (HTTPMovedPermanently (lower path)), w)
      else case cref_data ext nickname w of
        (Inl e, w1) \<Rightarrow>
          if is_UserError e
          then TemplateResponse ext ''cref.tmpl''
                 [(''nickname'', PNone), (''name'', PNone), (''annotations'', PStr [])]
                 ''200 OK'' CREF_MIMETYPE w1
          else (Inl e, w1)
      | (Inr template_data, w1) \<Rightarrow>
          TemplateResponse ext ''cref.tmpl'' template_data ''200 OK'' CREF_MIMETYPE w1)"

text \<open>
  \<^verbatim>\<open>
  def AnnotationView(request, nickname):
    if not request.path.islower():
      return webob.exc.HTTPMovedPermanently(location=request.path.lower())
    try:
      annotations = get_annotations(nickname)
    except UserError:
      annotations = ''
    template_data = {'annotations': annotations}
    return TemplateResponse(
      'annotations.tmpl', template_data, content_type=ANNOTATIONS_MIMETYPE)
  \<close>
\<close>

definition AnnotationView_body :: "externals \<Rightarrow> string \<Rightarrow> string \<Rightarrow> pyval action" where
  "AnnotationView_body ext path nickname w =
     (if \<not> islower path then (Inr (HTTPMovedPermanently (lower path)), w)
      else case get_annotations ext nickname w of
        (Inl e, w1) \<Rightarrow>
          if is_UserError e
          then TemplateResponse ext ''annotations.tmpl'' [(''annotations'', PStr [])]
                 ''200 OK'' ANNOTATIONS_MIMETYPE w1
          else (Inl e, w1)
      | (Inr annotations, w1) \<Rightarrow>
          TemplateResponse ext ''annotations.tmpl'' [(''annotations'', annotations)]
            ''200 OK'' ANNOTATIONS_MIMETYPE w1)"

text \<open>
  \<^verbatim>\<open>
  def AnnotationListView(request, nickname):
    if not request.path.islower():
      return webob.exc.HTTPMovedPermanently(location=request.path.lower())
    friendfeed_profile = get_friendfeed_profile(nickname)
    cse_names = get_cse_names(friendfeed_profile)
    template_data = {'nickname': nickname, 'cse_names': cse_names}
    return TemplateResponse(
      'annotation_list.tmpl', template_data, content_type=ANNOTATIONS_MIMETYPE)
  \<close>
\<close>

definition AnnotationListView_body :: "externals \<Rightarrow> string \<Rightarrow> string \<Rightarrow> pyval action" where
  "AnnotationListView_body ext path nickname w =
     (if \<not> islower path then (Inr (HTTPMovedPermanently (lower path)), w)
      else case get_friendfeed_profile ext (PStr nickname) w of
        (Inl e, w1) \<Rightarrow> (Inl e, w1)
      | (Inr friendfeed_profile, w1) \<Rightarrow>
          (case get_cse_names friendfeed_profile of
             Inl e \<Rightarrow> (Inl e, w1)
           | Inr cse_names \<Rightarrow>
               TemplateResponse ext ''annotation_list.tmpl''
                 [(''nickname'', PStr nickname), (''cse_names'', PList (map PStr cse_names))]
                 ''200 OK'' ANNOTATIONS_MIMETYPE w1))"

text \<open>The decorated handlers, selected by name.\<close>

datatype per_user_handler = UserView | OsdView | CrefView | AnnotationView | AnnotationListView

fun handler_name :: "per_user_handler \<Rightarrow> string" where
  "handler_name UserView = ''UserView''"
| "handler_name OsdView = ''OsdView''"
| "handler_name CrefView = ''CrefView''"
| "handler_name AnnotationView = ''AnnotationView''"
| "handler_name AnnotationListView = ''AnnotationListView''"

fun handler_body :: "per_user_handler \<Rightarrow> externals \<Rightarrow> string \<Rightarrow> string \<Rightarrow> pyval action" where
  "handler_body UserView = UserView_body"
| "handler_body OsdView = OsdView_body"
| "handler_body CrefView = CrefView_body"
| "handler_body AnnotationView = AnnotationView_body"
| "handler_body AnnotationListView = AnnotationListView_body"

definition handler_args :: "(string \<Rightarrow> string \<Rightarrow> pyval action) \<Rightarrow> pyval list \<Rightarrow> pyval action" where
  "handler_args body args =
     (case args of [PRequest path, PStr nickname] \<Rightarrow> body path nickname | _ \<Rightarrow> raise TypeError)"

definition per_user_view :: "per_user_handler \<Rightarrow> externals \<Rightarrow> string \<Rightarrow> string \<Rightarrow> pyval action" where
  "per_user_view h ext path nickname =
     cacheable (Some request_keygen) (Some CACHE_EXPIRATION) (f_module ext) (handler_name h)
       (handler_args (handler_body h ext)) [PRequest path, PStr nickname]"

text \<open>
  \<^verbatim>\<open>
  @cacheable(keygen=request_keygen)
  def HomeView(request):
    return TemplateResponse('home.tmpl')

  @cacheable(keygen=request_keygen)
  def FaqView(request):
    return TemplateResponse('faq.tmpl')
  \<close>
\<close>

definition HomeView_args :: "externals \<Rightarrow> pyval list \<Rightarrow> pyval action" where
  "HomeView_args ext args =
     (case args of [request] \<Rightarrow> TemplateResponse ext ''home.tmpl'' [] ''200 OK'' ''text/html''
      | _ \<Rightarrow> raise TypeError)"

definition HomeView :: "externals \<Rightarrow> pyval \<Rightarrow> (string \<times> pyval) list \<Rightarrow> pyval action" where
  "HomeView ext request kwargs =
     (if kwargs \<noteq> [] then raise TypeError
      else cacheable (Some request_keygen) (Some CACHE_EXPIRATION) (f_module ext) ''HomeView''
             (HomeView_args ext) [request])"

definition FaqView_args :: "externals \<Rightarrow> pyval list \<Rightarrow> pyval action" where
  "FaqView_args ext args =
     (case args of [request] \<Rightarrow> TemplateResponse ext ''faq.tmpl'' [] ''200 OK'' ''text/html''
      | _ \<Rightarrow> raise TypeError)"

definition FaqView :: "externals \<Rightarrow> pyval \<Rightarrow> (string \<times> pyval) list \<Rightarrow> pyval action" where
  "FaqView ext request kwargs =
     (if kwargs \<noteq> [] then raise TypeError
      else cacheable (Some request_keygen) (Some CACHE_EXPIRATION) (f_module ext) ''FaqView''
             (FaqView_args ext) [request])"

section \<open>The dispatcher\<close>

text \<open>
  A WSGI application receives the environ and answers with a status line, headers and
  a body.  Of the environ the program reads SCRIPT_NAME, the routing arguments and,
  through \<open>webob.Request(environ).path\<close>, SCRIPT_NAME followed by PATH_INFO.  A key
  that is missing from the environ is None here.
\<close>

record environ =
  REQUEST_METHOD :: string
  SCRIPT_NAME :: "string option"
  PATH_INFO :: string
  routing_args :: "(string \<times> pyval) list option"

record wsgi_response =
  status :: string
  headers :: "(string \<times> string) list"
  body :: "string list"

type_synonym view = "pyval \<Rightarrow> (string \<times> pyval) list \<Rightarrow> pyval action"

text \<open>
  The two kinds of application the dispatcher registers: a view wrapped by
  \<open>_make_request\<close>, with the error handler it was given, and \<open>_redirect_with_slash\<close>.
\<close>

datatype wsgi_app =
    Make_request view "wsgi_app option"
  | Redirect_with_slash

text \<open>
  \<^verbatim>\<open>
  @staticmethod
  def _redirect_with_slash(environ, start_response):
    new_url = environ['SCRIPT_NAME'] + '/'
    start_response('301 Moved Permanently',
                   [('content-type', 'text/html'),
                    ('Location', new_url)])
    return [('Page moved to %s' % new_url)]
  \<close>
\<close>

definition redirect_with_slash :: "environ \<Rightarrow> error + wsgi_response" where
  "redirect_with_slash environ =
     (case SCRIPT_NAME environ of
        None \<Rightarrow> Inl KeyError
      | Some script_name \<Rightarrow>
          (let new_url = script_name @ ''/'' in
           case py_format ''Page moved to %s'' new_url of
             Inl e \<Rightarrow> Inl e
           | Inr msg \<Rightarrow>
               Inr \<lparr>status = ''301 Moved Permanently'',
                    headers = [(''content-type'', ''text/html''), (''Location'', new_url)],
                    body = [msg]\<rparr>))"

text \<open>
  \<open>webob.Request(environ).path\<close> for a path of characters that webob leaves as they
  are (letters, digits, \<open>_.-/\<close>; webob percent-encodes other bytes), and a webob
  response called as a WSGI application, with the headers the program decides: the
  content type and the Location (webob adds the charset and a Content-Length).
  A value that is not a response cannot be called.
\<close>

definition request_path :: "environ \<Rightarrow> string" where
  "request_path environ =
     (case SCRIPT_NAME environ of None \<Rightarrow> [] | Some s \<Rightarrow> s) @ PATH_INFO environ"

definition send_response :: "pyval \<Rightarrow> error + wsgi_response" where
  "send_response response =
     (case response of
        PResponse st location content_type text \<Rightarrow>
          Inr \<lparr>status = st,
               headers = (''content-type'', content_type)
                         # (case location of None \<Rightarrow> [] | Some l \<Rightarrow> [(''Location'', l)]),
               body = [text]\<rparr>
      | _ \<Rightarrow> Inl TypeError)"

text \<open>
  \<^verbatim>\<open>
  def __call__(self, environ, start_response):
    request = webob.Request(environ)
    try:
      kwargs = environ['wsgiorg.routing_args'][1]
    except KeyError:
      kwargs = {}
    try:
      response = self._f(request, **kwargs)
    except BaseException, e:
      if self._error_handler:
        return self._error_handler(environ, start_response)
      else:
        raise e
    return response(environ, start_response)
  \<close>
\<close>

fun call_app :: "wsgi_app \<Rightarrow> environ \<Rightarrow> wsgi_response action" where
  "call_app Redirect_with_slash environ w = (redirect_with_slash environ, w)"
| "call_app (Make_request f error_handler) environ w =
     (let request = PRequest (request_path environ);
          kwargs = (case routing_args environ of None \<Rightarrow> [] | Some named \<Rightarrow> named)
      in case f request kwargs w of
           (Inl e, w1) \<Rightarrow>
             (case error_handler of
                Some handler \<Rightarrow> call_app handler environ w1
              | None \<Rightarrow> (Inl e, w1))
         | (Inr response, w1) \<Rightarrow> (send_response response, w1))"

text \<open>
  Modelled from the spec: the router under the dispatcher (wsgidispatcher.Dispatcher,
  held in \<open>self._urls\<close>), whose code is not part of ego.py.  The spec describes it
  as an ordered set of (path pattern, HTTP method) to handler bindings that extracts
  the path parameters from the matched pattern and calls the bound handler.  Its
  \<open>add\<close> appends a binding.  The pattern language is a parameter: \<open>matches pat p\<close>
  is the path parameters when pattern \<open>pat\<close> matches all of path \<open>p\<close>.  The router
  gives the request to the first binding that has the request's method and matches
  its path, moves the matched path from PATH_INFO to SCRIPT_NAME (which is where
  \<open>_redirect_with_slash\<close> reads "the same page" from) and stores the path parameters
  in the routing arguments.  With no such binding the result is None (the not-found
  handler's case).  The dispatcher of ego.py is this table together with the error
  handler it gives to the views it registers.
\<close>

record binding =
  pattern :: string
  http_method :: string
  app :: wsgi_app

record dispatcher =
  urls :: "binding list"
  error_handler :: "wsgi_app option"

definition urls_add :: "string \<Rightarrow> string \<Rightarrow> wsgi_app \<Rightarrow> dispatcher \<Rightarrow> dispatcher" where
  "urls_add path method a d =
     d\<lparr>urls := urls d @ [\<lparr>pattern = path, http_method = method, app = a\<rparr>]\<rparr>"

definition select_binding ::
  "(string \<Rightarrow> string \<Rightarrow> (string \<times> pyval) list option) \<Rightarrow> dispatcher \<Rightarrow> environ \<Rightarrow> binding option" where
  "select_binding matches d environ =
     find (\<lambda>b. http_method b = REQUEST_METHOD environ
                \<and> matches (pattern b) (PATH_INFO environ) \<noteq> None) (urls d)"

definition route ::
  "(string \<Rightarrow> string \<Rightarrow> (string \<times> pyval) list option) \<Rightarrow> dispatcher \<Rightarrow> environ \<Rightarrow>
   world \<Rightarrow> ((error + wsgi_response) \<times> world) option" where
  "route matches d environ w =
     (case select_binding matches d environ of
        None \<Rightarrow> None
      | Some b \<Rightarrow>
          Some (call_app (app b)
                  (environ\<lparr>SCRIPT_NAME := Some (request_path environ),
                           PATH_INFO := [],
                           routing_args := matches (pattern b) (PATH_INFO environ)\<rparr>) w))"

text \<open>
  \<^verbatim>\<open>
  def add_get_handler(self, path, f, error_handler=None):
    if error_handler is None:
      error_handler = self._error_handler
    self._urls.add(path, GET=self._make_request(f, error_handler))
    if path.endswith('/'):
      self._urls.add(path[0:-1], GET=self._redirect_with_slash)

  def add_error_handler(self, f):
    self._error_handler = self._make_request(f)
  \<close>
  \<open>path[0:-1]\<close> is the path without its last character.
\<close>

definition add_get_handler ::
  "string \<Rightarrow> view \<Rightarrow> wsgi_app option \<Rightarrow> dispatcher \<Rightarrow> dispatcher" where
  "add_get_handler path f handler d =
     (let handler = (case handler of None \<Rightarrow> error_handler d | Some h \<Rightarrow> Some h);
          d1 = urls_add path ''GET'' (Make_request f handler) d
      in if endswith path ''/'' then urls_add (butlast path) ''GET'' Redirect_with_slash d1
         else d1)"

definition add_error_handler :: "view \<Rightarrow> dispatcher \<Rightarrow> dispatcher" where
  "add_error_handler f d = d\<lparr>error_handler := Some (Make_request f None)\<rparr>"

section \<open>Worlds the program can reach\<close>

text \<open>
  memcache belongs to the application, and every write to it is the \<open>memcache.add\<close>
  of \<open>cacheable\<close>.  \<open>reachable ext w\<close> says that the world \<open>w\<close> comes from an
  empty cache by calls of the cached operations of the program (the handlers, the
  profile service) and by flushes (\<open>memcache.flush_all\<close> of ResetView); traces and
  the call counter are arbitrary.  \<open>cache_ok\<close> is the property of the cache content
  that these calls maintain: nothing is stored under the profile key of the empty
  nickname, and under the key of a per-user handler and a path that is not lowercase
  the only truthy value is the redirect to the lowercased path.
\<close>

definition entry_ok :: "externals \<Rightarrow> string \<Rightarrow> pyval \<Rightarrow> bool" where
  "entry_ok ext key v =
     (key \<noteq> global_key_of (f_module ext) ''get_friendfeed_profile'' (PStr [])
      \<and> (\<forall>h path. key = global_key_of (f_module ext) (handler_name h) (PStr path) \<longrightarrow>
             \<not> islower path \<longrightarrow> truthy v \<longrightarrow> v = HTTPMovedPermanently (lower path)))"

definition cache_ok :: "externals \<Rightarrow> world \<Rightarrow> bool" where
  "cache_ok ext w = (\<forall>key v. map_of (memcache w) key = Some v \<longrightarrow> entry_ok ext key v)"

inductive reachable :: "externals \<Rightarrow> world \<Rightarrow> bool" for ext :: externals where
  start: "memcache w = [] \<Longrightarrow> reachable ext w"
| view: "reachable ext w \<Longrightarrow> reachable ext (snd (per_user_view h ext path nickname w))"
| home: "reachable ext w \<Longrightarrow> reachable ext (snd (HomeView ext request kwargs w))"
| faq: "reachable ext w \<Longrightarrow> reachable ext (snd (FaqView ext request kwargs w))"
| profile: "reachable ext w \<Longrightarrow> reachable ext (snd (get_friendfeed_profile ext nickname w))"
| annotations: "reachable ext w \<Longrightarrow> reachable ext (snd (get_annotations ext nickname w))"
| url: "reachable ext w \<Longrightarrow> reachable ext (snd (get_url ext u w))"
| flush: "reachable ext w \<Longrightarrow> reachable ext (w\<lparr>memcache := []\<rparr>)"

section \<open>Sample services\<close>

text \<open>
  A small outside world for evaluating the functions: an upstream that knows a few
  nicknames, a JSON decoder that knows the bodies this upstream sends, and a template
  engine that answers with the template's name.
\<close>

definition sample_profile_url :: "string \<Rightarrow> string" where
  "sample_profile_url nickname =
     ''http://friendfeed.com/api/user/'' @ nickname @ ''/profile?include=name,nickname,services''"

definition sample_urlfetch :: "string \<Rightarrow> error + pyval" where
  \<open>sample_urlfetch url =
     (if url = sample_profile_url ''dewitt'' then Inr (PFetched 200 ''{"name": "DeWitt Clinton"}'')
      else if url = sample_profile_url ''123'' then Inr (PFetched 200 ''{"nickname": "123"}'')
      else if url = sample_profile_url ''None'' then Inr (PFetched 200 ''{"nickname": "None"}'')
      else if url = sample_profile_url ''0'' then Inr (PFetched 200 ''{"nickname": "0"}'')
      else if url = sample_profile_url ''ghost'' then Inr (PFetched 404 ''no such user'')
      else if url = sample_profile_url ''hidden'' then Inr (PFetched 401 ''private'')
      else if url = sample_profile_url ''down'' then Inr (PFetched 500 ''error'')
      else if url = sample_profile_url ''blank'' then Inr (PFetched 200 [])
      else if url = sample_profile_url ''nobody'' then Inr (PFetched 200 ''{}'')
      else if url = sample_profile_url ''garbled'' then Inr (PFetched 200 ''<html>'')
      else if url = ''http://ego-ego.appspot.com/friendfeed/dewitt/annotations/list/''
        then Inr (PFetched 200 ''<Annotations/>'')
      else Inr (PFetched 404 []))\<close>

definition sample_loads :: "string \<Rightarrow> error + pyval" where
  \<open>sample_loads text =
     (if text = ''{"name": "DeWitt Clinton"}'' then Inr (PDict [(''name'', PStr ''DeWitt Clinton'')])
      else if text = ''{"nickname": "123"}'' then Inr (PDict [(''nickname'', PStr ''123'')])
      else if text = ''{"nickname": "None"}'' then Inr (PDict [(''nickname'', PStr ''None'')])
      else if text = ''{"nickname": "0"}'' then Inr (PDict [(''nickname'', PStr ''0'')])
      else if text = ''{}'' then Inr (PDict [])
      else Inl ValueError)\<close>

definition sample_ext :: externals where
  "sample_ext =
     \<lparr>urlfetch = sample_urlfetch, simplejson_loads = sample_loads,
      template_render = (\<lambda>name data. Inr name), f_module = ''__main__''\<rparr>"

definition empty_world :: world where
  "empty_world = \<lparr>memcache = [], trace = [], calls = 0\<rparr>"

definition literal_match :: "string \<Rightarrow> string \<Rightarrow> (string \<times> pyval) list option" where
  "literal_match pat p = (if pat = p then Some [] else None)"

definition urls_fetched :: "world \<Rightarrow> string list" where
  "urls_fetched w = concat (map (\<lambda>e. case e of UrlFetch url \<Rightarrow> [url] | _ \<Rightarrow> []) (trace w))"

definition templates_rendered :: "world \<Rightarrow> string list" where
  "templates_rendered w = concat (map (\<lambda>e. case e of Render name \<Rightarrow> [name] | _ \<Rightarrow> []) (trace w))"

section \<open>Properties of the CSE pattern generator\<close>

lemma endswith_slash: "endswith s ''/'' \<longleftrightarrow> s \<noteq> [] \<and> last s = CHR ''/''"
proof (cases s rule: rev_cases)
  case Nil
  then show ?thesis by (simp add: endswith_def)
next
  case (snoc ys y)
  then show ?thesis by (auto simp: endswith_def)
qed

lemma replace_char_append:
  "replace_char c rep (xs @ ys) = replace_char c rep xs @ replace_char c rep ys"
  by (simp add: replace_char_def)

lemma escape_append: "escape (xs @ ys) = escape xs @ escape ys"
  by (simp add: escape_def replace_char_append)

lemma escape_single:
  "escape [c] = (if c = CHR ''&'' then ''&amp;'' else if c = CHR ''>'' then ''&gt;''
                 else if c = CHR ''<'' then ''&lt;'' else [c])"
  by (simp add: escape_def replace_char_def)

lemma escape_Nil_iff: "escape p = [] \<longleftrightarrow> p = []"
proof (cases p)
  case Nil
  then show ?thesis by (simp add: escape_def replace_char_def)
next
  case (Cons c cs)
  have "escape (c # cs) = escape [c] @ escape cs"
    using escape_append [of "[c]" cs] by simp
  then show ?thesis using Cons by (simp add: escape_single)
qed

lemma escape_endswith_slash: "endswith (escape p) ''/'' \<longleftrightarrow> endswith p ''/''"
proof (cases p rule: rev_cases)
  case Nil
  then show ?thesis by (simp add: escape_def replace_char_def)
next
  case (snoc ys y)
  then show ?thesis
    by (simp add: endswith_slash escape_append escape_single)
qed

lemma set_escape_question: "CHR ''?'' \<in> set (escape p) \<longleftrightarrow> CHR ''?'' \<in> set p"
proof (induction p)
  case Nil
  then show ?case by (simp add: escape_def replace_char_def)
next
  case (Cons c cs)
  have "escape (c # cs) = escape [c] @ escape cs"
    using escape_append [of "[c]" cs] by simp
  with Cons show ?case by (auto simp: escape_single)
qed

lemma re_match_nonempty: "re_match VALID_CSE_RE u \<Longrightarrow> u \<noteq> []"
proof
  assume "re_match VALID_CSE_RE u" and "u = []"
  then have "re_match VALID_CSE_RE []" by simp
  then show False by (simp add: re_match_def VALID_CSE_RE_def)
qed

lemma strip_http_endswith_slash:
  "strip_http e \<noteq> [] \<Longrightarrow> endswith (strip_http e) ''/'' \<longleftrightarrow> endswith e ''/''"
  by (auto simp: strip_http_def endswith_slash)

lemma strip_http_question:
  "CHR ''?'' \<in> set (strip_http e) \<longleftrightarrow> CHR ''?'' \<in> set e"
proof (cases "startswith e ''http://''")
  case False
  then show ?thesis by (simp add: strip_http_def)
next
  case True
  then have "e = ''http://'' @ drop (length ''http://'') e"
    unfolding startswith_def by (metis append_take_drop_id)
  then have "set e = set ''http://'' \<union> set (drop (length ''http://'') e)"
    by (metis set_append)
  with True show ?thesis by (auto simp: strip_http_def)
qed

text \<open>
  C1.  With \<open>url\<close> the profile URL after escaping and after a leading 'http://' is
  removed: an empty URL and a URL that fails VALID_CSE_RE give no pattern; a valid URL
  that ends with '/' gives \<open>[url, url + "*"]\<close>; a valid one that does not end with '/'
  and contains '?' gives \<open>[url]\<close>; any other valid one gives \<open>[url, url + "/*"]\<close>.
  For a valid URL the two tests give the same answer on the URL as received and on the
  processed one.
\<close>

theorem profile_url_to_cse_patterns_cases:
  assumes "url = strip_http (escape profile_url)"
  shows "profile_url_to_cse_patterns profile_url =
           (if profile_url = [] \<or> \<not> re_match VALID_CSE_RE url then []
            else if endswith url ''/'' then [url, url @ ''*'']
            else if contains_char (CHR ''?'') url then [url]
            else [url, url @ ''/*''])
         \<and> (re_match VALID_CSE_RE url \<longrightarrow>
              (endswith url ''/'' \<longleftrightarrow> endswith profile_url ''/'')
            \<and> (contains_char (CHR ''?'') url \<longleftrightarrow> contains_char (CHR ''?'') profile_url))"
proof -
  have first: "profile_url_to_cse_patterns profile_url =
           (if profile_url = [] \<or> \<not> re_match VALID_CSE_RE url then []
            else if endswith url ''/'' then [url, url @ ''*'']
            else if contains_char (CHR ''?'') url then [url]
            else [url, url @ ''/*''])"
    using assms by (simp add: profile_url_to_cse_patterns_def Let_def)
  have second: "(endswith url ''/'' \<longleftrightarrow> endswith profile_url ''/'')
      \<and> (contains_char (CHR ''?'') url \<longleftrightarrow> contains_char (CHR ''?'') profile_url)"
    if valid: "re_match VALID_CSE_RE url"
  proof -
    from valid have "url \<noteq> []" by (rule re_match_nonempty)
    then have "endswith url ''/'' \<longleftrightarrow> endswith (escape profile_url) ''/''"
      using assms strip_http_endswith_slash by simp
    moreover have "contains_char (CHR ''?'') url \<longleftrightarrow> contains_char (CHR ''?'') profile_url"
      using assms by (simp add: contains_char_def strip_http_question set_escape_question)
    ultimately show ?thesis by (simp add: escape_endswith_slash)
  qed
  from first second show ?thesis by blast
qed

theorem profile_url_to_cse_patterns_cases_witness:
  "profile_url_to_cse_patterns ''http://twitter.com/dewitt'' =
     [''twitter.com/dewitt'', ''twitter.com/dewitt/*'']"
proof -
  have u: "''twitter.com/dewitt'' = strip_http (escape ''http://twitter.com/dewitt'')"
    by (simp add: strip_http_def escape_def replace_char_def startswith_def)
  have v: "re_match VALID_CSE_RE ''twitter.com/dewitt''"
    by (simp add: re_match_def VALID_CSE_RE_def alnum_def word_or_hyphen_def
        ascii_lowercase_def ascii_uppercase_def digits_def)
  show ?thesis
    using profile_url_to_cse_patterns_cases [OF u] v
    by (simp add: endswith_def contains_char_def)
qed

lemma profile_url_to_cse_patterns_examples:
  "profile_url_to_cse_patterns ''http://www.flickr.com/photos/dewitt/'' =
     [''www.flickr.com/photos/dewitt/'', ''www.flickr.com/photos/dewitt/*'']"
  "profile_url_to_cse_patterns ''http://www.example.com/u?id=1&x=2'' =
     [''www.example.com/u?id=1&amp;x=2'']"
  "profile_url_to_cse_patterns ''https://example.com/'' = []"
  "profile_url_to_cse_patterns ''http://'' = []"
  "profile_url_to_cse_patterns [] = []"
  by (simp_all add: profile_url_to_cse_patterns_def strip_http_def escape_def replace_char_def
      startswith_def endswith_def contains_char_def re_match_def VALID_CSE_RE_def alnum_def
      word_or_hyphen_def ascii_lowercase_def ascii_uppercase_def digits_def)

section \<open>String formatting lemmas\<close>

lemma py_format_from_plain:
  "CHR ''%'' \<notin> set post \<Longrightarrow> py_format_from post a True = Inr post"
  by (induction post a True rule: py_format_from.induct) auto

lemma py_format_from_prefix:
  "CHR ''%'' \<notin> set pre \<Longrightarrow>
   py_format_from (pre @ CHR ''%'' # CHR ''s'' # post) a False =
     map_sum id ((@) (pre @ a)) (py_format_from post a True)"
proof (induction pre)
  case Nil
  show ?case by (cases "py_format_from post a True") auto
next
  case (Cons c pre)
  then have "py_format_from ((c # pre) @ CHR ''%'' # CHR ''s'' # post) a False =
      map_sum id ((#) c) (py_format_from (pre @ CHR ''%'' # CHR ''s'' # post) a False)"
    by (cases pre) auto
  with Cons show ?case by (cases "py_format_from post a True") auto
qed

lemma py_format_one:
  "CHR ''%'' \<notin> set pre \<Longrightarrow> CHR ''%'' \<notin> set post \<Longrightarrow>
   py_format (pre @ CHR ''%'' # CHR ''s'' # post) a = Inr (pre @ a @ post)"
  by (simp add: py_format_def py_format_from_prefix py_format_from_plain)

lemma py_format_none:
  "CHR ''%'' \<notin> set fmt \<Longrightarrow> py_format fmt a = Inl TypeError"
  unfolding py_format_def
  by (induction fmt a False rule: py_format_from.induct) auto

lemma friendfeed_profile_url_eq:
  "py_format ''http://friendfeed.com/api/user/%s/profile?include=name,nickname,services'' nickname =
     Inr (''http://friendfeed.com/api/user/'' @ nickname @ ''/profile?include=name,nickname,services'')"
  using py_format_one [of "''http://friendfeed.com/api/user/''" "''/profile?include=name,nickname,services''" nickname]
  by simp

lemma raise_formatted_one:
  "CHR ''%'' \<notin> set pre \<Longrightarrow> CHR ''%'' \<notin> set post \<Longrightarrow>
   raise_formatted E (pre @ CHR ''%'' # CHR ''s'' # post) a w = (Inl (E (pre @ a @ post)), w)"
  by (simp add: raise_formatted_def py_format_one raise_def)

lemma raise_formatted_none:
  "CHR ''%'' \<notin> set fmt \<Longrightarrow> raise_formatted E fmt a w = (Inl TypeError, w)"
  by (simp add: raise_formatted_def py_format_none raise_def)

lemma not_found_msg:
  "raise_formatted UserError ''User %s not found'' nickname w =
     (Inl (UserError (''User '' @ nickname @ '' not found'')), w)"
  using raise_formatted_one [of "''User ''" "'' not found''" UserError nickname w] by simp

lemma private_msg:
  "raise_formatted UserError ''User %s is private'' nickname w =
     (Inl (UserError (''User '' @ nickname @ '' is private'')), w)"
  using raise_formatted_one [of "''User ''" "'' is private''" UserError nickname w] by simp

lemma could_not_load_msg:
  "raise_formatted ServerError ''could not load friendfeed user %s'' nickname w =
     (Inl (ServerError (''could not load friendfeed user '' @ nickname)), w)"
  using raise_formatted_one [of "''could not load friendfeed user ''" "[]" ServerError nickname w] by simp

lemma could_not_parse_msg:
  "raise_formatted ServerError ''could not parse friendfeed user %s'' nickname w =
     (Inl (ServerError (''could not parse friendfeed user '' @ nickname)), w)"
  using raise_formatted_one [of "''could not parse friendfeed user ''" "[]" ServerError nickname w] by simp

lemma unknown_code_msg:
  "raise_formatted ServerError ''Unknown friendfeed code'' a w = (Inl TypeError, w)"
  by (rule raise_formatted_none) simp

lemma memcache_get_simps:
  "fst (memcache_get key w) = (case map_of (memcache w) key of None \<Rightarrow> PNone | Some v \<Rightarrow> v)"
  "snd (memcache_get key w) = emit (CacheGet key) w"
  by (simp_all add: memcache_get_def)

lemma emit_fields:
  "memcache (emit e w) = memcache w"
  "calls (emit e w) = calls w"
  "trace (emit e w) = trace w @ [e]"
  by (simp_all add: emit_def)


lemma templates_rendered_emit:
  "templates_rendered (emit e w) = templates_rendered w @ (case e of Render name \<Rightarrow> [name] | _ \<Rightarrow> [])"
  by (simp add: templates_rendered_def emit_def)

lemma cacheable_miss:
  assumes "\<not> no_expiration expiration"
    and "local_key_of keygen args = Inr local_key"
    and "global_key = global_key_of modname fname local_key"
    and "\<not> truthy (fst (memcache_get global_key w))"
  shows "fst (cacheable keygen expiration modname fname f args w) =
           fst (f args (emit (CacheGet global_key) w))"
  using assms
  by (auto simp: cacheable_def Let_def memcache_get_def split: prod.splits sum.splits)

lemma cacheable_hit:
  assumes "\<not> no_expiration expiration"
    and "local_key_of keygen args = Inr local_key"
    and "global_key = global_key_of modname fname local_key"
    and "map_of (memcache w) global_key = Some v"
    and "truthy v"
  shows "cacheable keygen expiration modname fname f args w = (Inr v, emit (CacheGet global_key) w)"
  using assms
  by (simp add: cacheable_def Let_def memcache_get_def)

text \<open>
  C6.  When the expiration is zero or unset, the decorated operation is the wrapped
  operation: same result and same final world, for every \<open>f\<close>, key function and
  argument list.  The world holds the cache content and the trace of cache reads and
  writes, so the decorator itself reads nothing from the cache and writes nothing to
  it.
\<close>

theorem cacheable_without_expiration:
  "no_expiration expiration \<Longrightarrow>
   cacheable keygen expiration modname fname f args w = f args w"
  by (simp add: cacheable_def)

text \<open>
  C3.  Round trip, with a time to live above zero.  A first call finds no truthy value
  under the key, invokes the (call-counting) operation, which returns a truthy value
  \<open>v\<close>, and memcache.add stores it.  Then that call returns \<open>v\<close> in world
  \<open>w1\<close>, and the same call made in \<open>w1\<close> returns \<open>v\<close> again, makes one cache read
  and nothing else, and leaves the call counter as it was.
\<close>

theorem cacheable_roundtrip:
  assumes ttl: "0 < ttl"
    and key: "local_key_of keygen args = Inr local_key"
    and gk: "global_key = global_key_of modname fname local_key"
    and miss: "memcache_get global_key w0 = (cached, wa)" "\<not> truthy cached"
    and computes: "counted f args wa = (Inr v, wb)" "truthy v"
    and stores: "memcache_add global_key v ttl wb = (True, w1)"
  shows "cacheable keygen (Some ttl) modname fname (counted f) args w0 = (Inr v, w1)
       \<and> cacheable keygen (Some ttl) modname fname (counted f) args w1
           = (Inr v, emit (CacheGet global_key) w1)
       \<and> calls (snd (cacheable keygen (Some ttl) modname fname (counted f) args w1)) = calls w1"
proof -
  from ttl have exp: "\<not> no_expiration (Some ttl)" by (simp add: no_expiration_def)
  have first: "cacheable keygen (Some ttl) modname fname (counted f) args w0 = (Inr v, w1)"
    using exp key gk miss computes stores by (simp add: cacheable_def Let_def)
  from stores have "map_of (memcache w1) global_key = Some v"
    by (auto simp: memcache_add_def emit_def split: option.splits)
  with exp key gk computes(2) have second:
    "cacheable keygen (Some ttl) modname fname (counted f) args w1
       = (Inr v, emit (CacheGet global_key) w1)"
    by (simp add: cacheable_hit)
  from first second show ?thesis by (simp add: emit_fields)
qed

section \<open>Profiles\<close>

text \<open>
  C4.  For a profile that is a mapping, get_friendfeed_name returns the value under
  'name' when that key is present, whatever 'nickname' holds; otherwise the value
  under 'nickname' when that key is present; otherwise the requested nickname.
\<close>

theorem get_friendfeed_name_prefers_name:
  "get_friendfeed_name (PDict profile) requested =
     Inr (case map_of profile ''name'' of
            Some name \<Rightarrow> name
          | None \<Rightarrow> (case map_of profile ''nickname'' of
                       Some nickname \<Rightarrow> nickname
                     | None \<Rightarrow> requested))"
  by (simp add: get_friendfeed_name_def getitem_def split: option.splits)

lemma annotations_url_eq:
  "py_format ANNOTATIONS_URL_TEMPLATE nickname =
     Inr (''http://ego-ego.appspot.com/friendfeed/'' @ nickname @ ''/annotations/list/'')"
  using py_format_one [of "''http://ego-ego.appspot.com/friendfeed/''" "''/annotations/list/''" nickname]
  by (simp add: ANNOTATIONS_URL_TEMPLATE_def)

text \<open>
  C10.  When get_url answers the annotations URL of the nickname with a status other
  than 200, get_annotations returns None (not the empty string); with status 200 it
  returns the body of the response.
\<close>

theorem get_annotations_returns_None:
  assumes "get_url ext (''http://ego-ego.appspot.com/friendfeed/'' @ nickname @ ''/annotations/list/'') w
             = (Inr (PFetched status_code content), w1)"
  shows "get_annotations ext nickname w =
           (Inr (if status_code \<noteq> 200 then PNone else PStr content), w1)"
  using assms by (simp add: get_annotations_def annotations_url_eq)


lemma get_friendfeed_profile_body_cases:
  assumes "nickname \<noteq> []"
    and "get_url ext (''http://friendfeed.com/api/user/'' @ nickname @ ''/profile?include=name,nickname,services'') w
           = (Inr (PFetched status_code content), w1)"
  shows "get_friendfeed_profile_body ext (PStr nickname) w =
     (if status_code = 404 then (Inl (UserError (''User '' @ nickname @ '' not found'')), w1)
      else if status_code = 401 then (Inl (UserError (''User '' @ nickname @ '' is private'')), w1)
      else if status_code \<noteq> 200 then (Inl TypeError, w1)
      else if content = [] then (Inl (ServerError (''could not load friendfeed user '' @ nickname)), w1)
      else case simplejson_loads ext content of
             Inl e \<Rightarrow> (Inl e, w1)
           | Inr friendfeed_profile \<Rightarrow>
               if truthy friendfeed_profile then (Inr friendfeed_profile, w1)
               else (Inl (ServerError (''could not parse friendfeed user '' @ nickname)), w1))"
  using assms
  by (simp add: get_friendfeed_profile_body_def friendfeed_profile_url_eq not_found_msg
      private_msg could_not_load_msg could_not_parse_msg unknown_code_msg raise_def
      split: sum.splits)

lemma local_key_first: "local_key_of None (a # args) = Inr a"
  by (simp add: local_key_of_def)

lemma expiration_set: "\<not> no_expiration (Some CACHE_EXPIRATION)"
  by (simp add: no_expiration_def CACHE_EXPIRATION_def)

text \<open>
  C2, amended.  For a non-empty nickname whose profile is not in the cache, and the
  response that get_url gives for the profile URL: status 404 raises UserError
  'User <nickname> not found'; status 401 raises UserError 'User <nickname> is private';
  status 200 with an empty body raises ServerError; status 200 with a body that
  simplejson decodes to a falsy value raises ServerError; status 200 with a body that
  simplejson decodes to a truthy value returns that value.
\<close>

theorem get_friendfeed_profile_status:
  assumes nonempty: "nickname \<noteq> []"
    and key: "key = global_key_of (f_module ext) ''get_friendfeed_profile'' (PStr nickname)"
    and miss: "\<not> truthy (fst (memcache_get key w))"
    and fetched: "get_url ext (''http://friendfeed.com/api/user/'' @ nickname @ ''/profile?include=name,nickname,services'')
                    (emit (CacheGet key) w) = (Inr (PFetched status_code content), w1)"
  shows "(status_code = 404 \<longrightarrow>
            fst (get_friendfeed_profile ext (PStr nickname) w) = Inl (UserError (''User '' @ nickname @ '' not found'')))
       \<and> (status_code = 401 \<longrightarrow>
            fst (get_friendfeed_profile ext (PStr nickname) w) = Inl (UserError (''User '' @ nickname @ '' is private'')))
       \<and> (status_code = 200 \<and> content = [] \<longrightarrow>
            fst (get_friendfeed_profile ext (PStr nickname) w)
              = Inl (ServerError (''could not load friendfeed user '' @ nickname)))
       \<and> (\<forall>profile. status_code = 200 \<and> content \<noteq> [] \<and> simplejson_loads ext content = Inr profile \<longrightarrow>
            fst (get_friendfeed_profile ext (PStr nickname) w)
              = (if truthy profile then Inr profile
                 else Inl (ServerError (''could not parse friendfeed user '' @ nickname))))"
proof -
  have "fst (get_friendfeed_profile ext (PStr nickname) w)
      = fst (get_friendfeed_profile_args ext [PStr nickname] (emit (CacheGet key) w))"
    unfolding get_friendfeed_profile_def
    using expiration_set local_key_first key miss by (rule cacheable_miss)
  also have "\<dots> = fst (get_friendfeed_profile_body ext (PStr nickname) (emit (CacheGet key) w))"
    by (simp add: get_friendfeed_profile_args_def)
  finally show ?thesis
    by (simp add: get_friendfeed_profile_body_cases [OF nonempty fetched])
qed

section \<open>Handlers and routes\<close>

lemma handler_body_redirect:
  "\<not> islower path \<Longrightarrow>
   handler_body h ext path nickname w = (Inr (HTTPMovedPermanently (lower path)), w)"
  by (cases h)
    (simp_all add: UserView_body_def OsdView_body_def CrefView_body_def
      AnnotationView_body_def AnnotationListView_body_def)

lemma request_keygen_path:
  "path \<noteq> [] \<Longrightarrow> local_key_of (Some request_keygen) (PRequest path # args) = Inr (PStr path)"
  by (simp add: local_key_of_def request_keygen_def)

lemma truthy_redirect: "truthy (HTTPMovedPermanently location)"
  by (simp add: HTTPMovedPermanently_def)

lemma per_user_view_redirect:
  assumes "\<not> islower path" and "path \<noteq> []"
    and "\<forall>v. map_of (memcache w) (global_key_of (f_module ext) (handler_name h) (PStr path)) = Some v
             \<longrightarrow> truthy v \<longrightarrow> v = HTTPMovedPermanently (lower path)"
  shows "fst (per_user_view h ext path nickname w) = Inr (HTTPMovedPermanently (lower path))"
    and "urls_fetched (snd (per_user_view h ext path nickname w)) = urls_fetched w"
    and "templates_rendered (snd (per_user_view h ext path nickname w)) = templates_rendered w"
proof -
  let ?key = "global_key_of (f_module ext) (handler_name h) (PStr path)"
  let ?w1 = "emit (CacheGet ?key) w"
  have body: "handler_args (handler_body h ext) [PRequest path, PStr nickname] ?w1
      = (Inr (HTTPMovedPermanently (lower path)), ?w1)"
    using assms(1) by (simp add: handler_args_def handler_body_redirect)
  show "fst (per_user_view h ext path nickname w) = Inr (HTTPMovedPermanently (lower path))"
  proof (cases "map_of (memcache w) ?key")
    case None
    then show ?thesis
      using body assms(2)
      by (simp add: per_user_view_def cacheable_def expiration_set request_keygen_path
          Let_def memcache_get_def truthy_redirect)
  next
    case (Some v)
    then show ?thesis
      using body assms(2) assms(3)
      by (simp add: per_user_view_def cacheable_def expiration_set request_keygen_path
          Let_def memcache_get_def truthy_redirect)
  qed
  have world: "snd (per_user_view h ext path nickname w) = ?w1
      \<or> snd (per_user_view h ext path nickname w) = emit (CacheAdd ?key)
           (?w1\<lparr>memcache := (?key, HTTPMovedPermanently (lower path)) # memcache ?w1\<rparr>)
      \<or> snd (per_user_view h ext path nickname w) = emit (CacheAdd ?key) ?w1"
    using body assms(2)
    by (simp add: per_user_view_def cacheable_def expiration_set request_keygen_path
        Let_def memcache_get_def truthy_redirect memcache_add_def split: option.splits)
  then show "urls_fetched (snd (per_user_view h ext path nickname w)) = urls_fetched w"
    by (auto simp: urls_fetched_def emit_def)
  from world show "templates_rendered (snd (per_user_view h ext path nickname w)) = templates_rendered w"
    by (auto simp: templates_rendered_def emit_def)
qed

section \<open>What the program stores in the cache\<close>

lemma cache_ok_emit [simp]: "cache_ok ext (emit e w) = cache_ok ext w"
  by (simp add: cache_ok_def emit_def)

lemma cache_ok_add:
  "cache_ok ext w \<Longrightarrow> entry_ok ext key v \<Longrightarrow> cache_ok ext (snd (memcache_add key v t w))"
  by (auto simp: cache_ok_def memcache_add_def emit_def split: option.splits)

lemma cacheable_cache_ok:
  assumes ok: "cache_ok ext w"
    and frame: "\<And>w'. cache_ok ext w' \<Longrightarrow> cache_ok ext (snd (f args w'))"
    and entry: "\<And>local_key v w'. local_key_of keygen args = Inr local_key \<Longrightarrow>
                 fst (f args w') = Inr v \<Longrightarrow> truthy v \<Longrightarrow>
                 entry_ok ext (global_key_of modname fname local_key) v"
  shows "cache_ok ext (snd (cacheable keygen expiration modname fname f args w))"
proof (cases "no_expiration expiration")
  case True
  then show ?thesis using ok frame by (simp add: cacheable_def)
next
  case False
  show ?thesis
  proof (cases "local_key_of keygen args")
    case (Inl e)
    then show ?thesis using False ok by (simp add: cacheable_def)
  next
    case (Inr local_key)
    let ?gk = "global_key_of modname fname local_key"
    let ?w1 = "emit (CacheGet ?gk) w"
    have ok1: "cache_ok ext ?w1" using ok by simp
    show ?thesis
    proof (cases "truthy (fst (memcache_get ?gk w))")
      case True
      then show ?thesis
        using False Inr ok1 by (simp add: cacheable_def Let_def memcache_get_def)
    next
      case miss: False
      obtain r w2 where run: "f args ?w1 = (r, w2)" by (cases "f args ?w1")
      have ok2: "cache_ok ext w2" using frame [OF ok1] run by simp
      show ?thesis
      proof (cases r)
        case (Inl e)
        then show ?thesis
          using False Inr miss run ok2 by (simp add: cacheable_def Let_def memcache_get_def)
      next
        case res: (Inr v)
        show ?thesis
        proof (cases "truthy v")
          case True
          have "entry_ok ext ?gk v"
            using entry [OF Inr _ True, of ?w1] run res by simp
          then have "cache_ok ext (snd (memcache_add ?gk v (the expiration) w2))"
            using ok2 by (simp add: cache_ok_add)
          then show ?thesis
            using False Inr miss run res True
            by (simp add: cacheable_def Let_def memcache_get_def)
        next
          case nt: False
          then show ?thesis
            using False Inr miss run res ok2
            by (simp add: cacheable_def Let_def memcache_get_def)
        qed
      qed
    qed
  qed
qed

lemma handler_name_inject:
  "handler_name h @ CHR '':'' # p = handler_name h' @ CHR '':'' # p' \<Longrightarrow> h = h' \<and> p = p'"
  by (cases h; cases h') simp_all

lemma handler_name_not_get:
  "CHR ''g'' # r \<noteq> handler_name h @ s"
  by (cases h) simp_all

lemma entry_ok_get_url: "entry_ok ext (global_key_of (f_module ext) ''get_url'' lk) v"
  by (auto simp: entry_ok_def global_key_of_def handler_name_not_get)

lemma str_nat_nonempty: "str_nat n \<noteq> []"
  by (subst str_nat.simps) simp

lemma py_repr_nonempty: "py_repr v \<noteq> []"
  by (cases v) (simp_all add: repr_str_def Let_def str_int_def str_nat_nonempty)

lemma py_str_truthy: "truthy v \<Longrightarrow> py_str v \<noteq> []"
  by (cases v) (simp_all add: py_repr_nonempty del: py_repr.simps)

lemma entry_ok_profile:
  "truthy nickname \<Longrightarrow>
   entry_ok ext (global_key_of (f_module ext) ''get_friendfeed_profile'' nickname) v"
  by (auto simp: entry_ok_def global_key_of_def handler_name_not_get dest: py_str_truthy)

lemma get_url_cache_ok:
  "cache_ok ext w \<Longrightarrow> cache_ok ext (snd (get_url ext u w))"
  unfolding get_url_def
proof (rule cacheable_cache_ok)
  fix w' assume "cache_ok ext w'"
  then show "cache_ok ext (snd (get_url_body ext [PStr u] w'))"
    by (simp add: get_url_body_def urlfetch_fetch_def)
qed (simp_all add: entry_ok_get_url)

lemma raise_formatted_world: "snd (raise_formatted E fmt a w) = w"
  by (simp add: raise_formatted_def raise_def split: sum.splits)

lemma get_friendfeed_profile_body_world:
  "snd (get_friendfeed_profile_body ext nickname w) =
     (if \<not> truthy nickname then w
      else snd (get_url ext (''http://friendfeed.com/api/user/'' @ py_str nickname @ ''/profile?include=name,nickname,services'') w))"
proof (cases "truthy nickname")
  case False
  then show ?thesis by (simp add: get_friendfeed_profile_body_def raise_def)
next
  case True
  let ?u = "''http://friendfeed.com/api/user/'' @ py_str nickname @ ''/profile?include=name,nickname,services''"
  obtain r w1 where run: "get_url ext ?u w = (r, w1)" by (cases "get_url ext ?u w")
  show ?thesis
  proof (cases r)
    case (Inl e)
    then show ?thesis
      using True run by (simp add: get_friendfeed_profile_body_def friendfeed_profile_url_eq)
  next
    case (Inr result)
    then show ?thesis
      using True run
      by (cases result)
        (simp_all add: get_friendfeed_profile_body_def friendfeed_profile_url_eq raise_def
          raise_formatted_world split: sum.splits)
  qed
qed

lemma get_friendfeed_profile_body_cache_ok:
  "cache_ok ext w \<Longrightarrow> cache_ok ext (snd (get_friendfeed_profile_body ext nickname w))"
  by (simp add: get_friendfeed_profile_body_world get_url_cache_ok)

lemma get_friendfeed_profile_cache_ok:
  "cache_ok ext w \<Longrightarrow> cache_ok ext (snd (get_friendfeed_profile ext nickname w))"
  unfolding get_friendfeed_profile_def
proof (rule cacheable_cache_ok)
  fix w' assume "cache_ok ext w'"
  then show "cache_ok ext (snd (get_friendfeed_profile_args ext [nickname] w'))"
    by (simp add: get_friendfeed_profile_args_def get_friendfeed_profile_body_cache_ok)
next
  fix local_key v w'
  assume "local_key_of None [nickname] = Inr local_key"
    and "fst (get_friendfeed_profile_args ext [nickname] w') = Inr v"
  then have "local_key = nickname" and "truthy nickname"
    by (auto simp: local_key_of_def get_friendfeed_profile_args_def
        get_friendfeed_profile_body_def raise_def split: if_splits)
  then show "entry_ok ext (global_key_of (f_module ext) ''get_friendfeed_profile'' local_key) v"
    by (simp add: entry_ok_profile)
qed

lemma get_annotations_cache_ok:
  "cache_ok ext w \<Longrightarrow> cache_ok ext (snd (get_annotations ext nickname w))"
proof -
  assume ok: "cache_ok ext w"
  let ?u = "''http://ego-ego.appspot.com/friendfeed/'' @ nickname @ ''/annotations/list/''"
  obtain r w1 where run: "get_url ext ?u w = (r, w1)" by (cases "get_url ext ?u w")
  have "snd (get_annotations ext nickname w) = w1"
  proof (cases r)
    case (Inl e)
    then show ?thesis using run by (simp add: get_annotations_def annotations_url_eq)
  next
    case (Inr result)
    then show ?thesis
      using run by (cases result) (simp_all add: get_annotations_def annotations_url_eq raise_def)
  qed
  moreover have "cache_ok ext w1" using get_url_cache_ok [OF ok, of ?u] run by simp
  ultimately show ?thesis by simp
qed

lemma TemplateResponse_cache_ok:
  "cache_ok ext w \<Longrightarrow> cache_ok ext (snd (TemplateResponse ext name data st ct w))"
  by (simp add: TemplateResponse_def split: sum.splits)

lemma handler_body_cache_ok:
  assumes ok: "cache_ok ext w"
  shows "cache_ok ext (snd (handler_body h ext path nickname w))"
proof (cases "islower path")
  case False
  then show ?thesis using ok by (simp add: handler_body_redirect)
next
  case True
  note p = get_friendfeed_profile_cache_ok [OF ok, of "PStr nickname"]
  show ?thesis
  proof (cases h)
    case UserView
    then show ?thesis
      using True p
      by (auto simp: UserView_body_def TemplateResponse_cache_ok split: prod.splits sum.splits)
  next
    case OsdView
    then show ?thesis
      using True p
      by (auto simp: OsdView_body_def TemplateResponse_cache_ok split: prod.splits sum.splits)
  next
    case CrefView
    have "cache_ok ext (snd (cref_data ext nickname w))"
    proof -
      obtain r w1 where a: "get_friendfeed_profile ext (PStr nickname) w = (r, w1)"
        by (cases "get_friendfeed_profile ext (PStr nickname) w")
      with p have ok1: "cache_ok ext w1" by simp
      obtain r2 w2 where b: "get_annotations ext nickname w1 = (r2, w2)"
        by (cases "get_annotations ext nickname w1")
      with get_annotations_cache_ok [OF ok1, of nickname] have ok2: "cache_ok ext w2" by simp
      show ?thesis
        using a b ok1 ok2 by (auto simp: cref_data_def split: sum.splits)
    qed
    with CrefView True show ?thesis
      by (auto simp: CrefView_body_def TemplateResponse_cache_ok split: prod.splits sum.splits)
  next
    case AnnotationView
    then show ?thesis
      using True get_annotations_cache_ok [OF ok, of nickname]
      by (auto simp: AnnotationView_body_def TemplateResponse_cache_ok split: prod.splits sum.splits)
  next
    case AnnotationListView
    then show ?thesis
      using True p
      by (auto simp: AnnotationListView_body_def TemplateResponse_cache_ok split: prod.splits sum.splits)
  qed
qed

lemma per_user_view_cache_ok:
  "cache_ok ext w \<Longrightarrow> cache_ok ext (snd (per_user_view h ext path nickname w))"
  unfolding per_user_view_def
proof (rule cacheable_cache_ok)
  fix w' assume "cache_ok ext w'"
  then show "cache_ok ext (snd (handler_args (handler_body h ext) [PRequest path, PStr nickname] w'))"
    by (simp add: handler_args_def handler_body_cache_ok)
next
  fix local_key v w'
  assume key: "local_key_of (Some request_keygen) [PRequest path, PStr nickname] = Inr local_key"
    and res: "fst (handler_args (handler_body h ext) [PRequest path, PStr nickname] w') = Inr v"
  from key have lk: "local_key = PStr path"
    by (auto simp: local_key_of_def request_keygen_def split: if_splits)
  have "v = HTTPMovedPermanently (lower path)" if "\<not> islower path"
    using res that by (simp add: handler_args_def handler_body_redirect)
  then show "entry_ok ext (global_key_of (f_module ext) (handler_name h) local_key) v"
    unfolding lk entry_ok_def global_key_of_def
    by (auto dest: handler_name_inject simp: handler_name_not_get [symmetric])
qed

lemma HomeView_cache_ok:
  "cache_ok ext w \<Longrightarrow> cache_ok ext (snd (HomeView ext request kwargs w))"
proof (cases "kwargs = []")
  case False
  assume "cache_ok ext w"
  with False show ?thesis by (simp add: HomeView_def raise_def)
next
  case True
  assume ok: "cache_ok ext w"
  have "cache_ok ext (snd (cacheable (Some request_keygen) (Some CACHE_EXPIRATION) (f_module ext)
      ''HomeView'' (HomeView_args ext) [request] w))"
    using ok
  proof (rule cacheable_cache_ok)
    fix w' assume "cache_ok ext w'"
    then show "cache_ok ext (snd (HomeView_args ext [request] w'))"
      by (simp add: HomeView_args_def TemplateResponse_cache_ok)
  next
    fix local_key v w'
    show "entry_ok ext (global_key_of (f_module ext) ''HomeView'' local_key) v"
      by (auto simp: entry_ok_def global_key_of_def) (case_tac h; simp)+
  qed
  with True show ?thesis by (simp add: HomeView_def)
qed

lemma FaqView_cache_ok:
  "cache_ok ext w \<Longrightarrow> cache_ok ext (snd (FaqView ext request kwargs w))"
proof (cases "kwargs = []")
  case False
  assume "cache_ok ext w"
  with False show ?thesis by (simp add: FaqView_def raise_def)
next
  case True
  assume ok: "cache_ok ext w"
  have "cache_ok ext (snd (cacheable (Some request_keygen) (Some CACHE_EXPIRATION) (f_module ext)
      ''FaqView'' (FaqView_args ext) [request] w))"
    using ok
  proof (rule cacheable_cache_ok)
    fix w' assume "cache_ok ext w'"
    then show "cache_ok ext (snd (FaqView_args ext [request] w'))"
      by (simp add: FaqView_args_def TemplateResponse_cache_ok)
  next
    fix local_key v w'
    show "entry_ok ext (global_key_of (f_module ext) ''FaqView'' local_key) v"
      by (auto simp: entry_ok_def global_key_of_def) (case_tac h; simp)+
  qed
  with True show ?thesis by (simp add: FaqView_def)
qed

lemma reachable_cache_ok: "reachable ext w \<Longrightarrow> cache_ok ext w"
proof (induction rule: reachable.induct)
  case (start w)
  then show ?case by (simp add: cache_ok_def)
next
  case (flush w)
  show ?case by (simp add: cache_ok_def)
qed (simp_all add: per_user_view_cache_ok HomeView_cache_ok FaqView_cache_ok
    get_friendfeed_profile_cache_ok get_annotations_cache_ok get_url_cache_ok)


lemma reachable_redirect_only:
  assumes "reachable ext w" and "\<not> islower path"
  shows "\<forall>v. map_of (memcache w) (global_key_of (f_module ext) (handler_name h) (PStr path)) = Some v
             \<longrightarrow> truthy v \<longrightarrow> v = HTTPMovedPermanently (lower path)"
  using reachable_cache_ok [OF assms(1)] assms(2)
  by (auto simp: cache_ok_def entry_ok_def)



text \<open>
  C7.  For each of the five per-user handlers and a request whose path is not
  lowercase by \<open>str.islower\<close>: the handler body returns the 301 response whose
  location is the lowercased path and touches nothing; the decorated handler returns
  that response, fetches no URL and renders no template, in every world the program
  can reach.
\<close>

theorem per_user_view_redirects_to_lowercase:
  assumes "\<not> islower path" and "path \<noteq> []" and "reachable ext w"
  shows "handler_body h ext path nickname w = (Inr (HTTPMovedPermanently (lower path)), w)
       \<and> fst (per_user_view h ext path nickname w) = Inr (HTTPMovedPermanently (lower path))
       \<and> urls_fetched (snd (per_user_view h ext path nickname w)) = urls_fetched w
       \<and> templates_rendered (snd (per_user_view h ext path nickname w)) = templates_rendered w"
  using assms handler_body_redirect
    per_user_view_redirect [OF assms(1) assms(2) reachable_redirect_only [OF assms(3) assms(1)]]
  by simp

lemma lower_caseless:
  "\<forall>c \<in> set s. c \<notin> set ascii_uppercase \<Longrightarrow> lower s = s"
proof -
  assume a: "\<forall>c \<in> set s. c \<notin> set ascii_uppercase"
  have "lower_char c = c" if "c \<notin> set ascii_uppercase" for c
  proof -
    from that have "map_of (zip ascii_uppercase ascii_lowercase) c = None"
      by (simp add: map_of_eq_None_iff ascii_uppercase_def ascii_lowercase_def)
    then show ?thesis by (simp add: lower_char_def)
  qed
  with a show ?thesis by (simp add: lower_def map_idI)
qed

lemma friendfeed_prefix_cased:
  assumes "startswith p ''/friendfeed/''"
  shows "\<exists>c \<in> set p. c \<in> set ascii_lowercase"
proof -
  from assms have "p = ''/friendfeed/'' @ drop (length ''/friendfeed/'') p"
    unfolding startswith_def by (metis append_take_drop_id)
  then have "set p = set ''/friendfeed/'' \<union> set (drop (length ''/friendfeed/'') p)"
    by (metis set_append)
  then have "CHR ''f'' \<in> set p" by simp
  moreover have "CHR ''f'' \<in> set ascii_lowercase" by (simp add: ascii_lowercase_def)
  ultimately show ?thesis by blast
qed

text \<open>
  C9, amended.  For a request whose path has no cased character at all, in a world the
  program can reach, the lowercase check fails and the handler returns a 301 response
  whose location is the unchanged path.  Such a path is not the path of a per-user route: a path that begins with
  '/friendfeed/' has cased characters, and it passes the check exactly when it has no
  uppercase letter.
\<close>

theorem caseless_path_redirects_to_itself:
  assumes "path \<noteq> []"
    and "\<forall>c \<in> set path. c \<notin> set ascii_lowercase \<and> c \<notin> set ascii_uppercase"
    and "reachable ext w"
  shows "\<not> islower path
       \<and> fst (per_user_view h ext path nickname w) = Inr (HTTPMovedPermanently path)
       \<and> \<not> startswith path ''/friendfeed/''
       \<and> (\<forall>p. startswith p ''/friendfeed/'' \<longrightarrow>
              (islower p \<longleftrightarrow> (\<forall>c \<in> set p. c \<notin> set ascii_uppercase)))"
proof -
  from assms(2) have nl: "\<not> islower path" by (auto simp: islower_def)
  from assms(2) have low: "lower path = path" by (simp add: lower_caseless)
  from assms(3) nl
  have "\<forall>v. map_of (memcache w) (global_key_of (f_module ext) (handler_name h) (PStr path)) = Some v
             \<longrightarrow> truthy v \<longrightarrow> v = HTTPMovedPermanently (lower path)"
    by (rule reachable_redirect_only)
  with nl assms(1)
  have "fst (per_user_view h ext path nickname w) = Inr (HTTPMovedPermanently (lower path))"
    by (rule per_user_view_redirect(1))
  moreover have "\<not> startswith path ''/friendfeed/''"
    using friendfeed_prefix_cased assms(2) by blast
  moreover have "islower p \<longleftrightarrow> (\<forall>c \<in> set p. c \<notin> set ascii_uppercase)"
    if "startswith p ''/friendfeed/''" for p
    using friendfeed_prefix_cased [OF that] by (auto simp: islower_def)
  ultimately show ?thesis using nl low by simp
qed

lemma find_append_none:
  "\<forall>x \<in> set xs. \<not> P x \<Longrightarrow> find P (xs @ ys) = find P ys"
  by (induction xs) auto

lemma page_moved_msg:
  "py_format ''Page moved to %s'' a = Inr (''Page moved to '' @ a)"
  using py_format_one [of "''Page moved to ''" "[]" a] by simp

text \<open>
  C8.  Registering a GET route for a path that ends in '/' appends two bindings to the
  table: the view under the path, and \<open>_redirect_with_slash\<close> under the path without
  its last character.  A GET request whose path matches the slash-less pattern, and
  neither the pattern with the slash nor an earlier GET binding, is answered with
  '301 Moved Permanently' and the Location header set to the request path followed
  by '/'.
\<close>

theorem add_get_handler_slash_redirect:
  assumes slash: "endswith path ''/''"
    and get: "REQUEST_METHOD environ = ''GET''"
    and slashless: "matches (butlast path) (PATH_INFO environ) \<noteq> None"
    and slashful: "matches path (PATH_INFO environ) = None"
    and earlier: "\<forall>b \<in> set (urls d). \<not> (http_method b = ''GET'' \<and> matches (pattern b) (PATH_INFO environ) \<noteq> None)"
  shows "urls (add_get_handler path f handler d) =
           urls d @ [\<lparr>pattern = path, http_method = ''GET'',
                       app = Make_request f (case handler of None \<Rightarrow> error_handler d | Some h \<Rightarrow> Some h)\<rparr>,
                     \<lparr>pattern = butlast path, http_method = ''GET'', app = Redirect_with_slash\<rparr>]
       \<and> route matches (add_get_handler path f handler d) environ w =
           Some (Inr \<lparr>status = ''301 Moved Permanently'',
                      headers = [(''content-type'', ''text/html''),
                                 (''Location'', request_path environ @ ''/'')],
                      body = [''Page moved to '' @ request_path environ @ ''/'']\<rparr>, w)"
proof -
  let ?b1 = "\<lparr>pattern = path, http_method = ''GET'',
       app = Make_request f (case handler of None \<Rightarrow> error_handler d | Some h \<Rightarrow> Some h)\<rparr>"
  let ?b2 = "\<lparr>pattern = butlast path, http_method = ''GET'', app = Redirect_with_slash\<rparr>"
  have table: "urls (add_get_handler path f handler d) = urls d @ [?b1, ?b2]"
    using slash by (simp add: add_get_handler_def urls_add_def Let_def)
  have "select_binding matches (add_get_handler path f handler d) environ = Some ?b2"
    unfolding select_binding_def table
    using earlier get slashless slashful by (simp add: find_append_none)
  then have "route matches (add_get_handler path f handler d) environ w =
      Some (redirect_with_slash
              (environ\<lparr>SCRIPT_NAME := Some (request_path environ), PATH_INFO := [],
                 routing_args := matches (butlast path) (PATH_INFO environ)\<rparr>), w)"
    by (simp add: route_def)
  then show ?thesis
    using table by (simp add: redirect_with_slash_def Let_def page_moved_msg)
qed

section \<open>Evaluation on the sample services\<close>

lemmas string_defs = ascii_lowercase_def ascii_uppercase_def digits_def islower_def lower_def
  lower_char_def startswith_def endswith_def

lemmas cache_defs = cacheable_def no_expiration_def CACHE_EXPIRATION_def local_key_of_def
  global_key_of_def memcache_get_def memcache_add_def emit_def Let_def

lemmas sample_defs = sample_ext_def sample_urlfetch_def sample_loads_def sample_profile_url_def
  empty_world_def

lemma sample_get_url:
  "fst (get_url sample_ext url w) =
     (case map_of (memcache w) (''__main__:get_url:'' @ url) of
        None \<Rightarrow> sample_urlfetch url
      | Some v \<Rightarrow> if truthy v then Inr v else sample_urlfetch url)"
  by (simp add: get_url_def cache_defs get_url_body_def urlfetch_fetch_def sample_ext_def
      split: option.splits sum.splits prod.splits)

text \<open>An expiration of zero on the sample services: the URL is fetched, the cache is not used.\<close>

theorem cacheable_without_expiration_witness:
  "no_expiration (Some 0) \<and> no_expiration None
   \<and> cacheable None (Some 0) ''__main__'' ''get_url'' (get_url_body sample_ext) [PStr ''http://x''] empty_world
       = (Inr (PFetched 404 []), \<lparr>memcache = [], trace = [UrlFetch ''http://x''], calls = 0\<rparr>)"
proof -
  have z: "no_expiration (Some 0)" and n: "no_expiration None"
    by (simp_all add: no_expiration_def)
  have "get_url_body sample_ext [PStr ''http://x''] empty_world
      = (Inr (PFetched 404 []), \<lparr>memcache = [], trace = [UrlFetch ''http://x''], calls = 0\<rparr>)"
    by (simp add: get_url_body_def urlfetch_fetch_def emit_def sample_defs)
  with z n show ?thesis
    using cacheable_without_expiration [OF z, of None "''__main__''" "''get_url''"
        "get_url_body sample_ext" "[PStr ''http://x'']" empty_world]
    by simp
qed

text \<open>A first and a second call of a counted fetch, from the empty cache.\<close>

theorem cacheable_roundtrip_witness:
  "cacheable None (Some 3600) ''__main__'' ''get_url'' (counted (get_url_body sample_ext))
     [PStr ''http://x''] empty_world
     = (Inr (PFetched 404 []),
        \<lparr>memcache = [(''__main__:get_url:http://x'', PFetched 404 [])],
         trace = [CacheGet ''__main__:get_url:http://x'', UrlFetch ''http://x'',
                  CacheAdd ''__main__:get_url:http://x''],
         calls = 1\<rparr>)
   \<and> fst (cacheable None (Some 3600) ''__main__'' ''get_url'' (counted (get_url_body sample_ext))
          [PStr ''http://x'']
          \<lparr>memcache = [(''__main__:get_url:http://x'', PFetched 404 [])],
           trace = [CacheGet ''__main__:get_url:http://x'', UrlFetch ''http://x'',
                    CacheAdd ''__main__:get_url:http://x''],
           calls = 1\<rparr>) = Inr (PFetched 404 [])
   \<and> calls (snd (cacheable None (Some 3600) ''__main__'' ''get_url'' (counted (get_url_body sample_ext))
          [PStr ''http://x'']
          \<lparr>memcache = [(''__main__:get_url:http://x'', PFetched 404 [])],
           trace = [CacheGet ''__main__:get_url:http://x'', UrlFetch ''http://x'',
                    CacheAdd ''__main__:get_url:http://x''],
           calls = 1\<rparr>)) = 1"
proof -
  let ?k = "''__main__:get_url:http://x''"
  let ?wa = "\<lparr>memcache = [], trace = [CacheGet ?k], calls = 0\<rparr>"
  let ?wb = "\<lparr>memcache = [], trace = [CacheGet ?k, UrlFetch ''http://x''], calls = 1\<rparr>"
  let ?w1 = "\<lparr>memcache = [(?k, PFetched 404 [])],
               trace = [CacheGet ?k, UrlFetch ''http://x'', CacheAdd ?k], calls = 1\<rparr>"
  have ttl: "(0::int) < 3600" by simp
  have key: "local_key_of None [PStr ''http://x''] = Inr (PStr ''http://x'')"
    by (simp add: local_key_of_def)
  have gk: "?k = global_key_of ''__main__'' ''get_url'' (PStr ''http://x'')"
    by (simp add: global_key_of_def)
  have miss: "memcache_get ?k empty_world = (PNone, ?wa)"
    by (simp add: memcache_get_def emit_def empty_world_def)
  have nt: "\<not> truthy PNone" by simp
  have computes: "counted (get_url_body sample_ext) [PStr ''http://x''] ?wa = (Inr (PFetched 404 []), ?wb)"
    by (simp add: counted_def get_url_body_def urlfetch_fetch_def emit_def sample_defs)
  have tr: "truthy (PFetched 404 [])" by simp
  have stores: "memcache_add ?k (PFetched 404 []) 3600 ?wb = (True, ?w1)"
    by (simp add: memcache_add_def emit_def)
  show ?thesis
    using cacheable_roundtrip [OF ttl key gk miss nt computes tr stores]
    by (simp add: emit_def)
qed

text \<open>The three cases of the display name.\<close>

theorem get_friendfeed_name_prefers_name_witness:
  "get_friendfeed_name (PDict [(''nickname'', PStr ''dewitt''), (''name'', PStr ''DeWitt Clinton'')]) (PStr ''DeWitt'')
     = Inr (PStr ''DeWitt Clinton'')
   \<and> get_friendfeed_name (PDict [(''nickname'', PStr ''dewitt'')]) (PStr ''DeWitt'') = Inr (PStr ''dewitt'')
   \<and> get_friendfeed_name (PDict [(''services'', PList [])]) (PStr ''DeWitt'') = Inr (PStr ''DeWitt'')"
  using get_friendfeed_name_prefers_name [of "[(''nickname'', PStr ''dewitt''), (''name'', PStr ''DeWitt Clinton'')]" "PStr ''DeWitt''"]
    get_friendfeed_name_prefers_name [of "[(''nickname'', PStr ''dewitt'')]" "PStr ''DeWitt''"]
    get_friendfeed_name_prefers_name [of "[(''services'', PList [])]" "PStr ''DeWitt''"]
  by simp

text \<open>Annotations of an unknown and of a known nickname.\<close>

theorem get_annotations_returns_None_witness:
  "fst (get_annotations sample_ext ''ghost'' empty_world) = Inr PNone
   \<and> fst (get_annotations sample_ext ''dewitt'' empty_world) = Inr (PStr ''<Annotations/>'')"
proof -
  have g: "get_url sample_ext (''http://ego-ego.appspot.com/friendfeed/'' @ ''ghost'' @ ''/annotations/list/'') empty_world
      = (Inr (PFetched 404 []), snd (get_url sample_ext (''http://ego-ego.appspot.com/friendfeed/'' @ ''ghost'' @ ''/annotations/list/'') empty_world))"
    by (simp add: prod_eq_iff sample_get_url) (simp add: sample_defs)
  have d: "get_url sample_ext (''http://ego-ego.appspot.com/friendfeed/'' @ ''dewitt'' @ ''/annotations/list/'') empty_world
      = (Inr (PFetched 200 ''<Annotations/>''), snd (get_url sample_ext (''http://ego-ego.appspot.com/friendfeed/'' @ ''dewitt'' @ ''/annotations/list/'') empty_world))"
    by (simp add: prod_eq_iff sample_get_url) (simp add: sample_defs)
  show ?thesis
    using get_annotations_returns_None [OF g] get_annotations_returns_None [OF d] by simp
qed


lemma sample_profile_fetch:
  "get_url sample_ext (''http://friendfeed.com/api/user/'' @ nickname @ ''/profile?include=name,nickname,services'')
     (emit (CacheGet key) empty_world)
   = (sample_urlfetch (sample_profile_url nickname),
      snd (get_url sample_ext (''http://friendfeed.com/api/user/'' @ nickname @ ''/profile?include=name,nickname,services'')
        (emit (CacheGet key) empty_world)))"
  by (simp add: prod_eq_iff sample_get_url emit_def empty_world_def sample_profile_url_def)

lemma sample_profile_miss:
  "\<not> truthy (fst (memcache_get key empty_world))"
  by (simp add: memcache_get_def empty_world_def)

text \<open>The five cases of the profile fetch on the sample upstream.\<close>

theorem get_friendfeed_profile_status_witness:
  "fst (get_friendfeed_profile sample_ext (PStr ''ghost'') empty_world) = Inl (UserError ''User ghost not found'')
   \<and> fst (get_friendfeed_profile sample_ext (PStr ''hidden'') empty_world) = Inl (UserError ''User hidden is private'')
   \<and> fst (get_friendfeed_profile sample_ext (PStr ''blank'') empty_world)
       = Inl (ServerError ''could not load friendfeed user blank'')
   \<and> fst (get_friendfeed_profile sample_ext (PStr ''nobody'') empty_world)
       = Inl (ServerError ''could not parse friendfeed user nobody'')
   \<and> fst (get_friendfeed_profile sample_ext (PStr ''dewitt'') empty_world)
       = Inr (PDict [(''name'', PStr ''DeWitt Clinton'')])"
proof -
  have ghost: "sample_urlfetch (sample_profile_url ''ghost'') = Inr (PFetched 404 ''no such user'')"
    and hidden: "sample_urlfetch (sample_profile_url ''hidden'') = Inr (PFetched 401 ''private'')"
    and blank: "sample_urlfetch (sample_profile_url ''blank'') = Inr (PFetched 200 [])"
    and nobody: "sample_urlfetch (sample_profile_url ''nobody'') = Inr (PFetched 200 ''{}'')"
    and dewitt: \<open>sample_urlfetch (sample_profile_url ''dewitt'') = Inr (PFetched 200 ''{"name": "DeWitt Clinton"}'')\<close>
    by (simp_all add: sample_urlfetch_def sample_profile_url_def)
  have loads: "simplejson_loads sample_ext ''{}'' = Inr (PDict [])"
    \<open>simplejson_loads sample_ext ''{"name": "DeWitt Clinton"}'' = Inr (PDict [(''name'', PStr ''DeWitt Clinton'')])\<close>
    by (simp_all add: sample_ext_def sample_loads_def)
  note by_status = get_friendfeed_profile_status [OF _ refl sample_profile_miss]
  have "fst (get_friendfeed_profile sample_ext (PStr ''ghost'') empty_world) = Inl (UserError ''User ghost not found'')"
    using by_status [OF _ sample_profile_fetch [of "''ghost''", unfolded ghost]] by simp
  moreover
  have "fst (get_friendfeed_profile sample_ext (PStr ''hidden'') empty_world) = Inl (UserError ''User hidden is private'')"
    using by_status [OF _ sample_profile_fetch [of "''hidden''", unfolded hidden]] by simp
  moreover
  have "fst (get_friendfeed_profile sample_ext (PStr ''blank'') empty_world)
       = Inl (ServerError ''could not load friendfeed user blank'')"
    using by_status [OF _ sample_profile_fetch [of "''blank''", unfolded blank]] by simp
  moreover
  have "fst (get_friendfeed_profile sample_ext (PStr ''nobody'') empty_world)
       = Inl (ServerError ''could not parse friendfeed user nobody'')"
    using by_status [OF _ sample_profile_fetch [of "''nobody''", unfolded nobody]] loads by simp
  moreover
  have "fst (get_friendfeed_profile sample_ext (PStr ''dewitt'') empty_world)
       = Inr (PDict [(''name'', PStr ''DeWitt Clinton'')])"
    using by_status [OF _ sample_profile_fetch [of "''dewitt''", unfolded dewitt]] loads by simp
  ultimately show ?thesis by simp
qed

lemma get_friendfeed_profile_cold:
  "fst (get_friendfeed_profile sample_ext (PStr nickname) empty_world) =
     fst (get_friendfeed_profile_body sample_ext (PStr nickname)
            (emit (CacheGet (global_key_of ''__main__'' ''get_friendfeed_profile'' (PStr nickname)))
               empty_world))"
proof -
  let ?key = "global_key_of ''__main__'' ''get_friendfeed_profile'' (PStr nickname)"
  have "fst (get_friendfeed_profile sample_ext (PStr nickname) empty_world)
      = fst (get_friendfeed_profile_args sample_ext [PStr nickname] (emit (CacheGet ?key) empty_world))"
    unfolding get_friendfeed_profile_def
    by (rule cacheable_miss [OF expiration_set local_key_first _ sample_profile_miss])
      (simp add: sample_ext_def)
  then show ?thesis by (simp add: get_friendfeed_profile_args_def)
qed

text \<open>
  Three responses on which the profile fetch does not do what C2 says.  The body '{}'
  is not empty and decodes to the empty dict, yet the function raises ServerError
  and does not return the mapping.  Status 500 raises the TypeError of
  \<open>'Unknown friendfeed code' % 500\<close>, a format string with no conversion, and no
  ServerError.  A body that simplejson rejects raises simplejson's ValueError.
\<close>

theorem get_friendfeed_profile_status_counterexample:
  "sample_urlfetch (sample_profile_url ''nobody'') = Inr (PFetched 200 ''{}'')
   \<and> simplejson_loads sample_ext ''{}'' = Inr (PDict [])
   \<and> fst (get_friendfeed_profile sample_ext (PStr ''nobody'') empty_world)
       = Inl (ServerError ''could not parse friendfeed user nobody'')
   \<and> sample_urlfetch (sample_profile_url ''down'') = Inr (PFetched 500 ''error'')
   \<and> fst (get_friendfeed_profile sample_ext (PStr ''down'') empty_world) = Inl TypeError
   \<and> sample_urlfetch (sample_profile_url ''garbled'') = Inr (PFetched 200 ''<html>'')
   \<and> simplejson_loads sample_ext ''<html>'' = Inl ValueError
   \<and> fst (get_friendfeed_profile sample_ext (PStr ''garbled'') empty_world) = Inl ValueError"
proof -
  have nobody: "sample_urlfetch (sample_profile_url ''nobody'') = Inr (PFetched 200 ''{}'')"
    and down: "sample_urlfetch (sample_profile_url ''down'') = Inr (PFetched 500 ''error'')"
    and garbled: "sample_urlfetch (sample_profile_url ''garbled'') = Inr (PFetched 200 ''<html>'')"
    by (simp_all add: sample_urlfetch_def sample_profile_url_def)
  have loads: "simplejson_loads sample_ext ''{}'' = Inr (PDict [])"
    "simplejson_loads sample_ext ''<html>'' = Inl ValueError"
    by (simp_all add: sample_ext_def sample_loads_def)
  have "fst (get_friendfeed_profile sample_ext (PStr ''nobody'') empty_world)
       = Inl (ServerError ''could not parse friendfeed user nobody'')"
    using get_friendfeed_profile_body_cases [OF _ sample_profile_fetch [of "''nobody''", unfolded nobody]]
    by (simp add: get_friendfeed_profile_cold loads)
  moreover have "fst (get_friendfeed_profile sample_ext (PStr ''down'') empty_world) = Inl TypeError"
    using get_friendfeed_profile_body_cases [OF _ sample_profile_fetch [of "''down''", unfolded down]]
    by (simp add: get_friendfeed_profile_cold)
  moreover have "fst (get_friendfeed_profile sample_ext (PStr ''garbled'') empty_world) = Inl ValueError"
    using get_friendfeed_profile_body_cases [OF _ sample_profile_fetch [of "''garbled''", unfolded garbled]]
    by (simp add: get_friendfeed_profile_cold loads)
  ultimately show ?thesis using nobody down garbled loads by simp
qed

text \<open>The mixed-case path of the spec.\<close>

theorem per_user_view_redirects_to_lowercase_witness:
  "\<not> islower ''/friendfeed/JohnDoe/''
   \<and> fst (per_user_view UserView sample_ext ''/friendfeed/JohnDoe/'' ''JohnDoe'' empty_world)
       = Inr (PResponse ''301 Moved Permanently'' (Some ''/friendfeed/johndoe/'') ''text/html'' [])
   \<and> urls_fetched (snd (per_user_view UserView sample_ext ''/friendfeed/JohnDoe/'' ''JohnDoe'' empty_world)) = []
   \<and> templates_rendered (snd (per_user_view UserView sample_ext ''/friendfeed/JohnDoe/'' ''JohnDoe'' empty_world)) = []"
proof -
  have mixed: "\<not> islower ''/friendfeed/JohnDoe/''"
    by (simp add: islower_def ascii_lowercase_def ascii_uppercase_def)
  have nonempty: "''/friendfeed/JohnDoe/'' \<noteq> []" by simp
  have cold: "reachable sample_ext empty_world"
    by (rule reachable.start) (simp add: empty_world_def)
  have low: "lower ''/friendfeed/JohnDoe/'' = ''/friendfeed/johndoe/''"
    by (simp add: lower_def lower_char_def ascii_lowercase_def ascii_uppercase_def)
  have none: "urls_fetched empty_world = []" "templates_rendered empty_world = []"
    by (simp_all add: urls_fetched_def templates_rendered_def empty_world_def)
  show ?thesis
    using per_user_view_redirects_to_lowercase [OF mixed nonempty cold, of UserView "''JohnDoe''"] mixed
    by (simp add: low none HTTPMovedPermanently_def)
qed

text \<open>A path with no letter, and an all-digit nickname under /friendfeed/.\<close>

theorem caseless_path_redirects_to_itself_witness:
  "\<not> islower ''/123/''
   \<and> fst (per_user_view UserView sample_ext ''/123/'' ''123'' empty_world)
       = Inr (PResponse ''301 Moved Permanently'' (Some ''/123/'') ''text/html'' [])
   \<and> islower ''/friendfeed/123/''"
proof -
  have nonempty: "''/123/'' \<noteq> []" by simp
  have caseless: "\<forall>c \<in> set ''/123/''. c \<notin> set ascii_lowercase \<and> c \<notin> set ascii_uppercase"
    by (simp add: ascii_lowercase_def ascii_uppercase_def)
  have cold: "reachable sample_ext empty_world"
    by (rule reachable.start) (simp add: empty_world_def)
  have pre: "startswith ''/friendfeed/123/'' ''/friendfeed/''"
    by (simp add: startswith_def)
  have noupper: "\<forall>c \<in> set ''/friendfeed/123/''. c \<notin> set ascii_uppercase"
    by (simp add: ascii_uppercase_def)
  from caseless_path_redirects_to_itself [OF nonempty caseless cold, of UserView "''123''"]
  have a: "\<not> islower ''/123/''"
    and b: "fst (per_user_view UserView sample_ext ''/123/'' ''123'' empty_world) = Inr (HTTPMovedPermanently ''/123/'')"
    and c: "\<forall>p. startswith p ''/friendfeed/'' \<longrightarrow> (islower p \<longleftrightarrow> (\<forall>c \<in> set p. c \<notin> set ascii_uppercase))"
    by blast+
  from c pre noupper have "islower ''/friendfeed/123/''" by blast
  with a b show ?thesis by (simp add: HTTPMovedPermanently_def)
qed

text \<open>
  The example of C9: the path /friendfeed/123/ is lowercase by \<open>str.islower\<close>, and
  the handler renders the user page instead of redirecting.
\<close>

theorem caseless_path_redirects_to_itself_counterexample:
  "islower ''/friendfeed/123/''
   \<and> fst (per_user_view UserView sample_ext ''/friendfeed/123/'' ''123'' empty_world)
       = Inr (PResponse ''200 OK'' None ''text/html'' ''user.tmpl'')"
proof -
  have low: "islower ''/friendfeed/123/''"
    by (simp add: islower_def ascii_lowercase_def ascii_uppercase_def)
  let ?key = "global_key_of ''__main__'' ''UserView'' (PStr ''/friendfeed/123/'')"
  let ?pkey = "global_key_of ''__main__'' ''get_friendfeed_profile'' (PStr ''123'')"
  let ?w = "emit (CacheGet ?key) empty_world"
  have miss: "\<not> truthy (fst (memcache_get ?pkey ?w))"
    by (simp add: memcache_get_def emit_def empty_world_def)
  have fetched: \<open>get_url sample_ext (''http://friendfeed.com/api/user/'' @ ''123'' @ ''/profile?include=name,nickname,services'')
       (emit (CacheGet ?pkey) ?w)
     = (Inr (PFetched 200 ''{"nickname": "123"}''),
        snd (get_url sample_ext (''http://friendfeed.com/api/user/'' @ ''123'' @ ''/profile?include=name,nickname,services'')
          (emit (CacheGet ?pkey) ?w)))\<close>
    by (simp add: prod_eq_iff sample_get_url emit_def empty_world_def)
      (simp add: sample_urlfetch_def sample_profile_url_def)
  have "fst (get_friendfeed_profile sample_ext (PStr ''123'') ?w)
      = fst (get_friendfeed_profile_args sample_ext [PStr ''123''] (emit (CacheGet ?pkey) ?w))"
    unfolding get_friendfeed_profile_def
    by (rule cacheable_miss [OF expiration_set local_key_first _ miss]) (simp add: sample_ext_def)
  also have "\<dots> = Inr (PDict [(''nickname'', PStr ''123'')])"
    using fetched
    by (simp add: get_friendfeed_profile_args_def get_friendfeed_profile_body_cases
        sample_ext_def sample_loads_def)
  finally obtain w1 where profile: "get_friendfeed_profile sample_ext (PStr ''123'') ?w
      = (Inr (PDict [(''nickname'', PStr ''123'')]), w1)"
    by (cases "get_friendfeed_profile sample_ext (PStr ''123'') ?w") auto
  have name: "get_friendfeed_name (PDict [(''nickname'', PStr ''123'')]) (PStr ''123'') = Inr (PStr ''123'')"
    by (simp add: get_friendfeed_name_def getitem_def)
  have render: "template_render sample_ext ''user.tmpl'' d = Inr ''user.tmpl''" for d
    by (simp add: sample_ext_def)
  have body: "fst (UserView_body sample_ext ''/friendfeed/123/'' ''123'' ?w)
      = Inr (PResponse ''200 OK'' None ''text/html'' ''user.tmpl'')"
    using low profile name render
    by (simp add: UserView_body_def TemplateResponse_def)
  have "fst (per_user_view UserView sample_ext ''/friendfeed/123/'' ''123'' empty_world)
      = fst (handler_args (handler_body UserView sample_ext) [PRequest ''/friendfeed/123/'', PStr ''123''] ?w)"
    unfolding per_user_view_def
    by (rule cacheable_miss [OF expiration_set request_keygen_path])
      (simp_all add: sample_ext_def memcache_get_def empty_world_def)
  with body low show ?thesis by (simp add: handler_args_def)
qed

text \<open>The route /faq/ and a request for /faq.\<close>

theorem add_get_handler_slash_redirect_witness:
  "route literal_match
     (add_get_handler ''/faq/'' (FaqView sample_ext) None \<lparr>urls = [], error_handler = None\<rparr>)
     \<lparr>REQUEST_METHOD = ''GET'', SCRIPT_NAME = Some [], PATH_INFO = ''/faq'', routing_args = None\<rparr>
     empty_world
   = Some (Inr \<lparr>status = ''301 Moved Permanently'',
                headers = [(''content-type'', ''text/html''), (''Location'', ''/faq/'')],
                body = [''Page moved to /faq/'']\<rparr>, empty_world)"
proof -
  let ?env = "\<lparr>REQUEST_METHOD = ''GET'', SCRIPT_NAME = Some [], PATH_INFO = ''/faq'', routing_args = None\<rparr>"
  let ?d = "\<lparr>urls = [], error_handler = None\<rparr>"
  have slash: "endswith ''/faq/'' ''/''" by (simp add: endswith_def)
  have get: "REQUEST_METHOD ?env = ''GET''" by simp
  have slashless: "literal_match (butlast ''/faq/'') (PATH_INFO ?env) \<noteq> None"
    by (simp add: literal_match_def)
  have slashful: "literal_match ''/faq/'' (PATH_INFO ?env) = None"
    by (simp add: literal_match_def)
  have earlier: "\<forall>b \<in> set (urls ?d).
      \<not> (http_method b = ''GET'' \<and> literal_match (pattern b) (PATH_INFO ?env) \<noteq> None)"
    by simp
  show ?thesis
    using add_get_handler_slash_redirect [where matches = literal_match and path = "''/faq/''"
        and environ = ?env and d = ?d and f = "FaqView sample_ext" and handler = None
        and w = empty_world, OF slash get slashless slashful earlier]
    by (simp add: request_path_def)
qed



end
